theory Spec2Isabelle
  imports Main
begin

section \<open>Text primitives\<close>

text \<open>
  The parsers read every sheet with \<^verbatim>\<open>dtype=str\<close> and \<^verbatim>\<open>fillna('')\<close>, so a grid is a list of
  rows and a row a list of cell texts. A cell text is a \<^typ>\<open>string\<close> whose characters are
  read as the code points U+0000 to U+00FF (Latin-1), which covers the Spanish documents
  the scripts are written for. The character tables below are Python's
  (\<^verbatim>\<open>str.isspace\<close>, \<^verbatim>\<open>str.isdigit\<close>, the \<^verbatim>\<open>re\<close> classes for \<^verbatim>\<open>str\<close> patterns,
  \<^verbatim>\<open>unicodedata.normalize('NFD', _)\<close>, \<^verbatim>\<open>str.upper\<close>) restricted to that range.
  Two code points leave the range under \<^verbatim>\<open>str.upper\<close>: U+00B5 (to U+039C) and U+00FF
  (to U+0178); the model keeps them as they are. No keyword of the program contains
  either, and upper-cased text is only ever compared with such keywords.

  The tables are written by rows of the code chart. The three high bits of a character
  select one of eight rows of 32 code points; \<open>chart_row c\<close> is (bit 7, bit 6, bit 5):
  (F,F,F) is 00-1F (controls), (F,F,T) is 20-3F (space, punctuation, digits),
  (F,T,F) is 40-5F (capital letters), (F,T,T) is 60-7F (small letters),
  (T,F,F) is 80-9F (controls), (T,F,T) is A0-BF (symbols),
  (T,T,F) is C0-DF (accented capitals), (T,T,T) is E0-FF (accented small letters).
  The two cases of a letter differ in bit 5 only.
\<close>

definition chart_row :: "char \<Rightarrow> bool \<times> bool \<times> bool" where
  "chart_row c = (case c of Char b0 b1 b2 b3 b4 b5 b6 b7 \<Rightarrow> (b7, b6, b5))"

definition other_case :: "char \<Rightarrow> char" where
  "other_case c = (case c of Char b0 b1 b2 b3 b4 b5 b6 b7 \<Rightarrow> Char b0 b1 b2 b3 b4 (\<not> b5) b6 b7)"

text \<open>Membership of a character in a list of characters, left to right.\<close>

fun mem :: "char \<Rightarrow> string \<Rightarrow> bool" where
  "mem c [] = False"
| "mem c (x # xs) = (if c = x then True else mem c xs)"

text \<open>\<^verbatim>\<open>str.isspace\<close>, also the class \<^verbatim>\<open>\s\<close> and what \<^verbatim>\<open>str.strip()\<close> removes.\<close>

definition is_space :: "char \<Rightarrow> bool" where
  "is_space c =
     (case chart_row c of
        (False, False, False) \<Rightarrow>
          mem c [CHR 0x09, CHR 0x0A, CHR 0x0B, CHR 0x0C, CHR 0x0D,
                 CHR 0x1C, CHR 0x1D, CHR 0x1E, CHR 0x1F]
      | (False, False, True) \<Rightarrow> c = CHR 0x20
      | (True, False, False) \<Rightarrow> c = CHR 0x85
      | (True, False, True) \<Rightarrow> c = CHR 0xA0
      | _ \<Rightarrow> False)"

text \<open>The class \<^verbatim>\<open>\d\<close> (decimal digits).\<close>

definition is_decimal :: "char \<Rightarrow> bool" where
  "is_decimal c =
     (case chart_row c of
        (False, False, True) \<Rightarrow> mem c ''0123456789''
      | _ \<Rightarrow> False)"

text \<open>\<^verbatim>\<open>str.isdigit\<close>: the decimal digits and the superscripts two, three and one.\<close>

definition py_isdigit :: "char \<Rightarrow> bool" where
  "py_isdigit c =
     (case chart_row c of
        (False, False, True) \<Rightarrow> mem c ''0123456789''
      | (True, False, True) \<Rightarrow> mem c [CHR 0xB2, CHR 0xB3, CHR 0xB9]
      | _ \<Rightarrow> False)"

text \<open>
  The class \<^verbatim>\<open>\w\<close>: alphanumeric characters and the underscore. In the rows of letters
  the characters that are not word characters are listed: 40 and 5B to 5E, 60 and 7B to
  7F, the multiplication sign D7 and the division sign F7. In row A0-BF the word characters
  are the ordinal indicators, the micro sign, the superscript digits and the fractions.
\<close>

definition is_word :: "char \<Rightarrow> bool" where
  "is_word c =
     (case chart_row c of
        (False, False, True) \<Rightarrow> mem c ''0123456789''
      | (False, True, False) \<Rightarrow>
          \<not> mem c [CHR 0x40, CHR 0x5B, CHR 0x5C, CHR 0x5D, CHR 0x5E]
      | (False, True, True) \<Rightarrow>
          \<not> mem c [CHR 0x60, CHR 0x7B, CHR 0x7C, CHR 0x7D, CHR 0x7E, CHR 0x7F]
      | (True, False, True) \<Rightarrow>
          mem c [CHR 0xAA, CHR 0xB2, CHR 0xB3, CHR 0xB5, CHR 0xB9, CHR 0xBA,
                 CHR 0xBC, CHR 0xBD, CHR 0xBE]
      | (True, True, False) \<Rightarrow> c \<noteq> CHR 0xD7
      | (True, True, True) \<Rightarrow> c \<noteq> CHR 0xF7
      | _ \<Rightarrow> False)"

text \<open>
  The letters whose other case is a Latin-1 letter too: the rows of letters without their
  signs, without the sharp s (DF) and without the y with diaeresis (FF).
\<close>

definition is_cased :: "char \<Rightarrow> bool" where
  "is_cased c =
     (case chart_row c of
        (False, True, False) \<Rightarrow>
          \<not> mem c [CHR 0x40, CHR 0x5B, CHR 0x5C, CHR 0x5D, CHR 0x5E, CHR 0x5F]
      | (False, True, True) \<Rightarrow>
          \<not> mem c [CHR 0x60, CHR 0x7B, CHR 0x7C, CHR 0x7D, CHR 0x7E, CHR 0x7F]
      | (True, True, False) \<Rightarrow> \<not> mem c [CHR 0xD7, CHR 0xDF]
      | (True, True, True) \<Rightarrow> \<not> mem c [CHR 0xF7, CHR 0xFF]
      | _ \<Rightarrow> False)"

text \<open>
  \<^verbatim>\<open>_strip_accents\<close>: canonical decomposition, then every combining mark (category Mn)
  is dropped. In Latin-1 exactly the letters below decompose, each into a base letter
  and marks; they all lie in the rows C0-DF and E0-FF.
\<close>

definition accent_table :: "(char \<times> char) list" where
  "accent_table = zip
    [CHR 0xC0, CHR 0xC1, CHR 0xC2, CHR 0xC3, CHR 0xC4, CHR 0xC5, CHR 0xC7,
     CHR 0xC8, CHR 0xC9, CHR 0xCA, CHR 0xCB, CHR 0xCC, CHR 0xCD, CHR 0xCE, CHR 0xCF,
     CHR 0xD1, CHR 0xD2, CHR 0xD3, CHR 0xD4, CHR 0xD5, CHR 0xD6,
     CHR 0xD9, CHR 0xDA, CHR 0xDB, CHR 0xDC, CHR 0xDD,
     CHR 0xE0, CHR 0xE1, CHR 0xE2, CHR 0xE3, CHR 0xE4, CHR 0xE5, CHR 0xE7,
     CHR 0xE8, CHR 0xE9, CHR 0xEA, CHR 0xEB, CHR 0xEC, CHR 0xED, CHR 0xEE, CHR 0xEF,
     CHR 0xF1, CHR 0xF2, CHR 0xF3, CHR 0xF4, CHR 0xF5, CHR 0xF6,
     CHR 0xF9, CHR 0xFA, CHR 0xFB, CHR 0xFC, CHR 0xFD, CHR 0xFF]
    ''AAAAAACEEEEIIIINOOOOOUUUUYaaaaaaceeeeiiiinooooouuuuyy''"

definition strip_accent_char :: "char \<Rightarrow> char" where
  "strip_accent_char c =
     (case chart_row c of
        (True, True, b) \<Rightarrow> (case map_of accent_table c of Some base \<Rightarrow> base | None \<Rightarrow> c)
      | _ \<Rightarrow> c)"

definition strip_accents :: "string \<Rightarrow> string" where
  "strip_accents s = map strip_accent_char s"

text \<open>\<^verbatim>\<open>str.upper\<close>; the sharp s becomes two letters.\<close>

definition upper_char :: "char \<Rightarrow> string" where
  "upper_char c =
     (case chart_row c of
        (False, True, True) \<Rightarrow> if is_cased c then [other_case c] else [c]
      | (True, True, True) \<Rightarrow> if is_cased c then [other_case c] else [c]
      | (True, True, False) \<Rightarrow> if c = CHR 0xDF then ''SS'' else [c]
      | _ \<Rightarrow> [c])"

definition py_upper :: "string \<Rightarrow> string" where
  "py_upper s = concat (map upper_char s)"

text \<open>
  Case-insensitive comparison of two characters, as \<^verbatim>\<open>re.IGNORECASE\<close> compares them: equal,
  or the two cases of one letter.
\<close>

definition ci_eq :: "char \<Rightarrow> char \<Rightarrow> bool" where
  "ci_eq a b = (if a = b then True else if other_case a = b then is_cased a else False)"

text \<open>\<^verbatim>\<open>str.strip()\<close>.\<close>

definition strip :: "string \<Rightarrow> string" where
  "strip s = rev (dropWhile is_space (rev (dropWhile is_space s)))"

text \<open>\<^verbatim>\<open>s.startswith(p)\<close> and the substring test \<^verbatim>\<open>p in s\<close>.\<close>

fun starts_with :: "string \<Rightarrow> string \<Rightarrow> bool" where
  "starts_with [] s = True"
| "starts_with (p # ps) [] = False"
| "starts_with (p # ps) (c # cs) = (if p = c then starts_with ps cs else False)"

fun contains_str :: "string \<Rightarrow> string \<Rightarrow> bool" where
  "contains_str p [] = (p = [])"
| "contains_str p (c # cs) = (if starts_with p (c # cs) then True else contains_str p cs)"

text \<open>\<^verbatim>\<open>' '.join(xs)\<close>.\<close>

fun join_sp :: "string list \<Rightarrow> string" where
  "join_sp [] = []"
| "join_sp [x] = x"
| "join_sp (x # y # zs) = x @ '' '' @ join_sp (y # zs)"

text \<open>The folding \<^verbatim>\<open>_strip_accents(s).upper()\<close> every keyword test goes through.\<close>

definition fold_text :: "string \<Rightarrow> string" where
  "fold_text s = py_upper (strip_accents s)"


section \<open>Opening balances to the right of a label\<close>

text \<open>
  \<^verbatim>\<open>_extraer_saldos_desde_fila(strip_cells, etiqueta)\<close> of \<^verbatim>\<open>comsol.py\<close>. The inner loop
  over the cells to the right of the label cell is \<open>valores_desde\<close>; the outer loop returns
  at the first cell that contains the label.
\<close>

fun valores_desde :: "string list \<Rightarrow> string list" where
  "valores_desde [] = []"
| "valores_desde (c # cs) =
     (let v = strip c in
      if v = [] then valores_desde cs
      else if list_ex is_decimal v then v # valores_desde cs
      else valores_desde cs)"

fun extraer_saldos_desde_fila :: "string list \<Rightarrow> string \<Rightarrow> string list" where
  "extraer_saldos_desde_fila [] etiqueta = []"
| "extraer_saldos_desde_fila (celda # resto) etiqueta =
     (if contains_str (fold_text etiqueta) (fold_text celda) then valores_desde resto
      else extraer_saldos_desde_fila resto etiqueta)"





section \<open>Regular expressions of the statement parsers\<close>

text \<open>
  Each regular expression the parsers compile is written out as the function that decides
  it. \<open>match_fecha\<close> is \<^verbatim>\<open>\d{1,2}/\d{1,2}/\d{4}\<close> anchored at the head of the text; it
  returns the matched date and the text after it. A run of one or two digits must be
  followed by the slash, so the whole leading run of digits has length one or two.
\<close>

definition match_fecha :: "string \<Rightarrow> (string \<times> string) option" where
  "match_fecha s =
     (let d1 = takeWhile is_decimal s; r1 = dropWhile is_decimal s in
      if (length d1 = 1 \<or> length d1 = 2) \<and> starts_with ''/'' r1 then
        (let d2 = takeWhile is_decimal (tl r1); r2 = dropWhile is_decimal (tl r1) in
         if (length d2 = 1 \<or> length d2 = 2) \<and> starts_with ''/'' r2 then
           (let d3 = take 4 (tl r2) in
            if length d3 = 4 \<and> list_all is_decimal d3
            then Some (d1 @ ''/'' @ d2 @ ''/'' @ d3, drop 4 (tl r2))
            else None)
         else None)
      else None)"

text \<open>\<^verbatim>\<open>rx_fecha_cell = ^\s*\d{1,2}/\d{1,2}/\d{4}\s*$\<close>, used with \<^verbatim>\<open>match\<close>.\<close>

definition rx_fecha_cell :: "string \<Rightarrow> bool" where
  "rx_fecha_cell c =
     (case match_fecha (dropWhile is_space c) of
        None \<Rightarrow> False
      | Some (m, rest) \<Rightarrow> list_all is_space rest)"

text \<open>
  \<^verbatim>\<open>rx_fecha_linea = ^\s*(\d{1,2}/\d{1,2}/\d{4})\b\<close>, used with \<^verbatim>\<open>match\<close>; the result is
  group 1. After the last digit \<^verbatim>\<open>\b\<close> holds at the end of the text or before a
  character that is not a word character.
\<close>

definition rx_fecha_linea :: "string \<Rightarrow> string option" where
  "rx_fecha_linea s =
     (case match_fecha (dropWhile is_space s) of
        None \<Rightarrow> None
      | Some (m, rest) \<Rightarrow>
          (case rest of [] \<Rightarrow> Some m | c # cs \<Rightarrow> if is_word c then None else Some m))"

fun ci_starts_with :: "string \<Rightarrow> string \<Rightarrow> bool" where
  "ci_starts_with [] s = True"
| "ci_starts_with (p # ps) [] = False"
| "ci_starts_with (p # ps) (c # cs) = (if ci_eq p c then ci_starts_with ps cs else False)"

text \<open>
  \<^verbatim>\<open>re.search(r'AL:\s*(\d{1,2}/\d{1,2}/\d{4})', s, re.IGNORECASE)\<close>: group 1 of the leftmost
  match.
\<close>

fun search_fecha_al :: "string \<Rightarrow> string option" where
  "search_fecha_al [] = None"
| "search_fecha_al (c # cs) =
     (if ci_starts_with ''AL:'' (c # cs) then
        (case match_fecha (dropWhile is_space (drop 3 (c # cs))) of
           Some (m, rest) \<Rightarrow> Some m
         | None \<Rightarrow> search_fecha_al cs)
      else search_fecha_al cs)"

text \<open>
  \<^verbatim>\<open>re.search(r'SUCURSAL:\s*([^)]+)\)', s, re.IGNORECASE)\<close>: group 1 of the leftmost match.
  After the keyword the text up to the next closing parenthesis must be non-empty. The
  greedy \<^verbatim>\<open>\s*\<close> takes its leading white space; when that is all of it, the engine gives
  one character back for \<^verbatim>\<open>[^)]+\<close>.
\<close>

fun search_sucursal :: "string \<Rightarrow> string option" where
  "search_sucursal [] = None"
| "search_sucursal (c # cs) =
     (if ci_starts_with ''SUCURSAL:'' (c # cs) then
        (let rest = drop 9 (c # cs);
             seg = takeWhile (\<lambda>x. x \<noteq> CHR '')'') rest;
             close = dropWhile (\<lambda>x. x \<noteq> CHR '')'') rest in
         if seg \<noteq> [] \<and> close \<noteq> [] then
           (if dropWhile is_space seg = [] then Some [last seg]
            else Some (dropWhile is_space seg))
         else search_sucursal cs)
      else search_sucursal cs)"

text \<open>
  \<^verbatim>\<open>\b\<close> between a previous and a next character (\<open>None\<close> at either end of the text), and
  the pattern \<^verbatim>\<open>\b(w1|w2|...)\b\<close> of literal alternatives, in the order the engine works:
  \<open>search_bounded\<close> tries the positions from the left and tests the leading \<^verbatim>\<open>\b\<close>,
  \<open>alts_at\<close> tries the alternatives in order, \<open>lit_at\<close> matches one alternative and tests
  the closing \<^verbatim>\<open>\b\<close>. The flag says whether letters compare case-insensitively. The
  result is the matched text.
\<close>

definition word_opt :: "char option \<Rightarrow> bool" where
  "word_opt c = (case c of None \<Rightarrow> False | Some x \<Rightarrow> is_word x)"

definition boundary :: "char option \<Rightarrow> char option \<Rightarrow> bool" where
  "boundary prev nxt = (word_opt prev \<noteq> word_opt nxt)"

definition head_opt :: "string \<Rightarrow> char option" where
  "head_opt s = (case s of [] \<Rightarrow> None | c # cs \<Rightarrow> Some c)"

definition lit_at :: "bool \<Rightarrow> string \<Rightarrow> string \<Rightarrow> string option" where
  "lit_at ci lit s =
     (if lit = [] then None
      else if (if ci then ci_starts_with lit s else starts_with lit s) then
        (if boundary (Some (last (take (length lit) s))) (head_opt (drop (length lit) s))
         then Some (take (length lit) s)
         else None)
      else None)"

fun alts_at :: "bool \<Rightarrow> string list \<Rightarrow> string \<Rightarrow> string option" where
  "alts_at ci [] s = None"
| "alts_at ci (w # ws) s =
     (case lit_at ci w s of Some m \<Rightarrow> Some m | None \<Rightarrow> alts_at ci ws s)"

fun search_bounded :: "bool \<Rightarrow> string list \<Rightarrow> char option \<Rightarrow> string \<Rightarrow> string option" where
  "search_bounded ci ws prev [] = None"
| "search_bounded ci ws prev (c # cs) =
     (if boundary prev (Some c) then
        (case alts_at ci ws (c # cs) of
           Some m \<Rightarrow> Some m
         | None \<Rightarrow> search_bounded ci ws (Some c) cs)
      else search_bounded ci ws (Some c) cs)"

text \<open>\<^verbatim>\<open>rx_totales = \b(TOTAL|SUBTOTAL)\b\<close> with \<^verbatim>\<open>re.IGNORECASE\<close>, used with \<^verbatim>\<open>search\<close>.\<close>

definition rx_totales :: "string \<Rightarrow> bool" where
  "rx_totales s = (search_bounded True [''TOTAL'', ''SUBTOTAL''] None s \<noteq> None)"


section \<open>Cell helpers\<close>

text \<open>\<^verbatim>\<open>_first_non_empty_after\<close>, \<^verbatim>\<open>_get_cell\<close> and \<^verbatim>\<open>_only_digits\<close>.\<close>

definition first_non_empty_after :: "string list \<Rightarrow> nat \<Rightarrow> nat option" where
  "first_non_empty_after row_vals start_idx =
     List.find (\<lambda>i. strip (row_vals ! i) \<noteq> []) [start_idx + 1 ..< length row_vals]"

definition get_cell :: "string list \<Rightarrow> nat option \<Rightarrow> string \<Rightarrow> string" where
  "get_cell row_vals idx dflt =
     (case idx of
        None \<Rightarrow> dflt
      | Some i \<Rightarrow>
          if i \<ge> length row_vals then dflt
          else (let v = strip (row_vals ! i) in if v \<noteq> [] then v else dflt))"

definition only_digits :: "string \<Rightarrow> string" where
  "only_digits s = filter py_isdigit s"

text \<open>
  The guard \<^verbatim>\<open>_first_non_empty_after(cells, i) if i is not None else None\<close> of the detail
  rows.
\<close>

definition after_opt :: "string list \<Rightarrow> nat option \<Rightarrow> nat option" where
  "after_opt row_vals idx =
     (case idx of None \<Rightarrow> None | Some i \<Rightarrow> first_non_empty_after row_vals i)"

text \<open>\<^verbatim>\<open>next((i for i, c in enumerate(cells) if p(c)), None)\<close>.\<close>

fun first_index :: "('a \<Rightarrow> bool) \<Rightarrow> 'a list \<Rightarrow> nat option" where
  "first_index P [] = None"
| "first_index P (x # xs) = (if P x then Some 0 else map_option Suc (first_index P xs))"

text \<open>\<^verbatim>\<open>' '.join([c for c in strip_cells if c])\<close> of a row.\<close>

definition line_join :: "string list \<Rightarrow> string" where
  "line_join row = join_sp (filter (\<lambda>c. c \<noteq> []) (map strip row))"


section \<open>The ATM cash statement (wide ledger format)\<close>

text \<open>
  The loop of \<^verbatim>\<open>get_ec_atm\<close> keeps its parse state in local variables; the model
  threads them through as a record. One step is the loop body on one row: it returns
  whether the loop goes on (\<open>Next\<close>) or leaves through \<^verbatim>\<open>break\<close> (\<open>Stop\<close>), the new state,
  and the records appended by that row.
\<close>

record ec_state =
  agencia :: string
  fecha_archivo :: string
  ing_egr :: string
  motivo_actual :: string

record registro_base =
  FECHA_OPER :: string
  SUCURSAL :: string
  RECIBO :: string
  BULTOS :: string
  ING_EGR :: string
  CLASIFICACION :: string
  FECHA_ARCHIVO :: string
  MOTIVO_MOVIMIENTO :: string
  AGENCIA :: string

record registro = registro_base +
  GUARANIES :: string
  DOLARES :: string

datatype flow = Next | Stop

text \<open>
  The chain of look-ups of a detail row, identical in \<^verbatim>\<open>prosegur_unificado_v4_2.py\<close> and
  \<^verbatim>\<open>comsol.py\<close>: date cell, then branch, receipt, parcels, guaranies and dollars, each the
  first non-empty cell to the right of the one before.
\<close>

definition detalle ::
  "string list \<Rightarrow> nat \<Rightarrow> string \<times> string \<times> string \<times> string \<times> string \<times> string" where
  "detalle strip_cells date_idx =
     (let fecha_oper = strip_cells ! date_idx;
          suc_idx = first_non_empty_after strip_cells date_idx;
          sucursal = get_cell strip_cells suc_idx [];
          rec_idx = after_opt strip_cells suc_idx;
          recibo_raw = get_cell strip_cells rec_idx [];
          recibo_digits = only_digits recibo_raw;
          recibo = (if recibo_digits \<noteq> [] then recibo_digits else recibo_raw);
          bul_idx = after_opt strip_cells rec_idx;
          bultos = get_cell strip_cells bul_idx [];
          gua_idx = after_opt strip_cells bul_idx;
          g = get_cell strip_cells gua_idx ''0'';
          guaranies = (if g \<noteq> [] then g else ''0'');
          usd_idx = after_opt strip_cells gua_idx;
          d = get_cell strip_cells usd_idx ''0'';
          dolares = (if d \<noteq> [] then d else ''0'')
      in (fecha_oper, sucursal, recibo, bultos, guaranies, dolares))"

text \<open>
  The two header tests of \<^verbatim>\<open>prosegur_unificado_v4_2.py\<close>: the issuer row gives the text of
  the sucursal pattern, the statement row the as-of date; each test answers \<open>None\<close> when
  the keyword is absent or the pattern does not match, and the row then goes on to the
  next rule.
\<close>

definition sucursal_de :: "string \<Rightarrow> string \<Rightarrow> string option" where
  "sucursal_de line upper_join =
     (if contains_str ''PROSEGUR PARAGUAY S.A.'' upper_join then search_sucursal line else None)"

definition fecha_archivo_de :: "string \<Rightarrow> string \<Rightarrow> string option" where
  "fecha_archivo_de line upper_join =
     (if contains_str ''ESTADO DE CUENTA DE'' upper_join then search_fecha_al line else None)"

text \<open>
  The loop body of \<^verbatim>\<open>get_ec_atm\<close> in \<^verbatim>\<open>prosegur_unificado_v4_2.py\<close>. The parameter
  \<open>agencia_fallback\<close> is the agency resolved from the file name before the loop.
\<close>

definition ec_atm_step ::
  "string \<Rightarrow> ec_state \<Rightarrow> string list \<Rightarrow> flow \<times> ec_state \<times> registro list" where
  "ec_atm_step agencia_fallback st row =
     (let strip_cells = map strip row;
          line = line_join row;
          upper_join = fold_text line in
      if line = [] then (Next, st, [])
      else
        (case sucursal_de line upper_join of
           Some g \<Rightarrow> (Next, st\<lparr>agencia := strip g\<rparr>, [])
         | None \<Rightarrow>
        (case fecha_archivo_de line upper_join of
           Some f \<Rightarrow> (Next, st\<lparr>fecha_archivo := f\<rparr>, [])
         | None \<Rightarrow>
        if upper_join = ''INGRESOS'' then (Next, st\<lparr>ing_egr := ''IN'', motivo_actual := []\<rparr>, [])
        else if upper_join = ''EGRESOS'' then (Next, st\<lparr>ing_egr := ''OUT'', motivo_actual := []\<rparr>, [])
        else if contains_str ''INFORME DE PROCESOS'' upper_join then (Stop, st, [])
        else if rx_totales line then (Next, st, [])
        else
          (case first_index rx_fecha_cell strip_cells of
             None \<Rightarrow>
               if ing_egr st \<noteq> [] then (Next, st\<lparr>motivo_actual := strip line\<rparr>, [])
               else (Next, st, [])
           | Some date_idx \<Rightarrow>
               if ing_egr st \<noteq> [] \<and> motivo_actual st \<noteq> [] then
                 (case detalle strip_cells date_idx of
                    (fecha_oper, sucursal, recibo, bultos, guaranies, dolares) \<Rightarrow>
                      (Next, st,
                       [\<lparr>FECHA_OPER = fecha_oper, SUCURSAL = sucursal, RECIBO = recibo,
                         BULTOS = bultos, ING_EGR = ing_egr st, CLASIFICACION = ''ATM'',
                         FECHA_ARCHIVO = fecha_archivo st,
                         MOTIVO_MOVIMIENTO = motivo_actual st,
                         AGENCIA = (if agencia st \<noteq> [] then agencia st
                                    else agencia_fallback),
                         GUARANIES = guaranies, DOLARES = dolares\<rparr>]))
               else (Next, st, [])))))"

text \<open>The loop over the rows of the sheet, and the parser from its initial state.\<close>

fun ec_atm_run ::
  "string \<Rightarrow> ec_state \<Rightarrow> string list list \<Rightarrow> ec_state \<times> registro list" where
  "ec_atm_run fb st [] = (st, [])"
| "ec_atm_run fb st (row # rows) =
     (case ec_atm_step fb st row of
        (Stop, st', out) \<Rightarrow> (st', out)
      | (Next, st', out) \<Rightarrow>
          (case ec_atm_run fb st' rows of (st'', outs) \<Rightarrow> (st'', out @ outs)))"

definition ec_state0 :: ec_state where
  "ec_state0 = \<lparr>agencia = [], fecha_archivo = [], ing_egr = [], motivo_actual = []\<rparr>"

definition get_ec_atm :: "string \<Rightarrow> string list list \<Rightarrow> registro list" where
  "get_ec_atm agencia_fallback grid = snd (ec_atm_run agencia_fallback ec_state0 grid)"


section \<open>The ATM cash statement with opening balances\<close>

text \<open>
  \<^verbatim>\<open>get_ec_atm\<close> of \<^verbatim>\<open>comsol.py\<close>: the same scan with two more variables for the opening
  balances, a capture rule in front of the others, and issuer and statement rows that
  always end the iteration.
\<close>

record ec_state_saldo = ec_state +
  saldo_ant_usd :: string
  saldo_ant_pyg :: string

record registro_saldo = registro +
  SALDO_ANTERIOR_PYG :: string
  SALDO_ANTERIOR_USD :: string

definition comsol_ec_atm_step ::
  "ec_state_saldo \<Rightarrow> string list \<Rightarrow> flow \<times> ec_state_saldo \<times> registro_saldo list" where
  "comsol_ec_atm_step st row =
     (let strip_cells = map strip row;
          line = line_join row;
          upper_join = fold_text line in
      if line = [] then (Next, st, [])
      else if contains_str ''SALDO ANTERIOR'' upper_join
              \<and> \<not> (saldo_ant_usd st \<noteq> [] \<or> saldo_ant_pyg st \<noteq> []) then
        (let saldos = extraer_saldos_desde_fila strip_cells ''SALDO ANTERIOR'' in
         (Next,
          st\<lparr>saldo_ant_usd := (if length saldos \<ge> 1 then saldos ! 0 else saldo_ant_usd st),
             saldo_ant_pyg := (if length saldos \<ge> 2 then saldos ! 1 else saldo_ant_pyg st)\<rparr>,
          []))
      else if contains_str ''PROSEGUR PARAGUAY S.A.'' upper_join then
        (case search_sucursal line of
           Some g \<Rightarrow> (Next, st\<lparr>agencia := strip g\<rparr>, [])
         | None \<Rightarrow> (Next, st, []))
      else if contains_str ''ESTADO DE CUENTA DE'' upper_join then
        (case search_fecha_al line of
           Some f \<Rightarrow> (Next, st\<lparr>fecha_archivo := f\<rparr>, [])
         | None \<Rightarrow> (Next, st, []))
      else if upper_join = ''INGRESOS'' then (Next, st\<lparr>ing_egr := ''IN'', motivo_actual := []\<rparr>, [])
      else if upper_join = ''EGRESOS'' then (Next, st\<lparr>ing_egr := ''OUT'', motivo_actual := []\<rparr>, [])
      else if contains_str ''INFORME DE PROCESOS'' upper_join then (Stop, st, [])
      else if rx_totales line then (Next, st, [])
      else
        (case first_index rx_fecha_cell strip_cells of
           None \<Rightarrow>
             if ing_egr st \<noteq> [] then (Next, st\<lparr>motivo_actual := strip line\<rparr>, [])
             else (Next, st, [])
         | Some date_idx \<Rightarrow>
             if ing_egr st \<noteq> [] \<and> motivo_actual st \<noteq> [] then
               (case detalle strip_cells date_idx of
                  (fecha_oper, sucursal, recibo, bultos, guaranies, dolares) \<Rightarrow>
                    (Next, st,
                     [\<lparr>FECHA_OPER = fecha_oper, SUCURSAL = sucursal, RECIBO = recibo,
                       BULTOS = bultos, ING_EGR = ing_egr st, CLASIFICACION = ''ATM'',
                       FECHA_ARCHIVO = fecha_archivo st,
                       MOTIVO_MOVIMIENTO = motivo_actual st,
                       AGENCIA = agencia st,
                       GUARANIES = guaranies, DOLARES = dolares,
                       SALDO_ANTERIOR_PYG = saldo_ant_pyg st,
                       SALDO_ANTERIOR_USD = saldo_ant_usd st\<rparr>]))
             else (Next, st, [])))"

fun comsol_ec_atm_run ::
  "ec_state_saldo \<Rightarrow> string list list \<Rightarrow> ec_state_saldo \<times> registro_saldo list" where
  "comsol_ec_atm_run st [] = (st, [])"
| "comsol_ec_atm_run st (row # rows) =
     (case comsol_ec_atm_step st row of
        (Stop, st', out) \<Rightarrow> (st', out)
      | (Next, st', out) \<Rightarrow>
          (case comsol_ec_atm_run st' rows of (st'', outs) \<Rightarrow> (st'', out @ outs)))"

definition ec_state_saldo0 :: ec_state_saldo where
  "ec_state_saldo0 =
     \<lparr>agencia = [], fecha_archivo = [], ing_egr = [], motivo_actual = [],
      saldo_ant_usd = [], saldo_ant_pyg = []\<rparr>"

definition comsol_get_ec_atm :: "string list list \<Rightarrow> registro_saldo list" where
  "comsol_get_ec_atm grid = snd (comsol_ec_atm_run ec_state_saldo0 grid)"


section \<open>Row classes used in the statements\<close>

text \<open>
  A row mentions a section when its folded joined text contains one of the two section
  words; it has a date cell when one of its trimmed cells is a date. A section value is
  well formed when it is empty, IN or OUT.
\<close>

definition mentions_section :: "string list \<Rightarrow> bool" where
  "mentions_section row =
     (contains_str ''INGRESOS'' (fold_text (line_join row))
      \<or> contains_str ''EGRESOS'' (fold_text (line_join row)))"

definition has_date_cell :: "string list \<Rightarrow> bool" where
  "has_date_cell row = list_ex rx_fecha_cell (map strip row)"

definition section_ok :: "string \<Rightarrow> bool" where
  "section_ok s = (s = [] \<or> s = ''IN'' \<or> s = ''OUT'')"

text \<open>
  The rows that reach the test for the terminal marker, respectively the test for totals,
  and pass it: no rule of higher priority in the loop body takes them first. In
  \<^verbatim>\<open>comsol.py\<close> the capture rule is one of those rules as long as nothing is captured.
\<close>

definition ec_atm_consumed :: "string list \<Rightarrow> bool" where
  "ec_atm_consumed row =
     (let line = line_join row; upper_join = fold_text line in
      line = []
      \<or> sucursal_de line upper_join \<noteq> None
      \<or> fecha_archivo_de line upper_join \<noteq> None
      \<or> upper_join = ''INGRESOS'' \<or> upper_join = ''EGRESOS'')"

definition ec_atm_terminal_row :: "string list \<Rightarrow> bool" where
  "ec_atm_terminal_row row =
     (\<not> ec_atm_consumed row
      \<and> contains_str ''INFORME DE PROCESOS'' (fold_text (line_join row)))"

definition ec_atm_stop_row :: "string list \<Rightarrow> bool" where
  "ec_atm_stop_row row =
     (\<not> ec_atm_consumed row
      \<and> \<not> contains_str ''INFORME DE PROCESOS'' (fold_text (line_join row))
      \<and> rx_totales (line_join row))"

definition comsol_ec_atm_consumed :: "ec_state_saldo \<Rightarrow> string list \<Rightarrow> bool" where
  "comsol_ec_atm_consumed st row =
     (let line = line_join row; upper_join = fold_text line in
      line = []
      \<or> (contains_str ''SALDO ANTERIOR'' upper_join
          \<and> \<not> (saldo_ant_usd st \<noteq> [] \<or> saldo_ant_pyg st \<noteq> []))
      \<or> contains_str ''PROSEGUR PARAGUAY S.A.'' upper_join
      \<or> contains_str ''ESTADO DE CUENTA DE'' upper_join
      \<or> upper_join = ''INGRESOS'' \<or> upper_join = ''EGRESOS'')"

definition comsol_ec_atm_terminal_row :: "ec_state_saldo \<Rightarrow> string list \<Rightarrow> bool" where
  "comsol_ec_atm_terminal_row st row =
     (\<not> comsol_ec_atm_consumed st row
      \<and> contains_str ''INFORME DE PROCESOS'' (fold_text (line_join row)))"

definition comsol_ec_atm_stop_row :: "ec_state_saldo \<Rightarrow> string list \<Rightarrow> bool" where
  "comsol_ec_atm_stop_row st row =
     (\<not> comsol_ec_atm_consumed st row
      \<and> \<not> contains_str ''INFORME DE PROCESOS'' (fold_text (line_join row))
      \<and> rx_totales (line_join row))"


section \<open>The bank cash statement (single amount and currency label)\<close>

text \<open>
  \<^verbatim>\<open>rx_moneda\<close> is a pattern \<^verbatim>\<open>\b(...)\b\<close> with \<^verbatim>\<open>re.IGNORECASE\<close>. Its alternatives are listed
  in the order the engine tries them: a character class gives one word per member, and a
  greedy \<^verbatim>\<open>S?\<close> the word with the S before the word without (so \<^verbatim>\<open>REALES?\<close> is REALES, then
  REALE). The first list is that of \<^verbatim>\<open>prosegur_unificado_v4_2.py\<close>, the second that of
  \<^verbatim>\<open>comsol.py\<close>.
\<close>

definition moneda_words :: "string list" where
  "moneda_words =
     [''GUARANIES'', ''GUARAN'' @ [CHR 0xCD] @ ''ES'', ''D'' @ [CHR 0xD3] @ ''LARES'', ''DOLARES'',
      ''EUROS'', ''EURO'', ''REALES'', ''REALE'', ''PESOS'', ''PESO'',
      ''PYG'', ''USD'', ''EUR'', ''BRL'', ''ARS'']"

definition rx_moneda :: "string \<Rightarrow> string option" where
  "rx_moneda s = search_bounded True moneda_words None s"

definition comsol_moneda_words :: "string list" where
  "comsol_moneda_words =
     [''GUARANIES'', ''GUARAN'' @ [CHR 0xCD] @ ''ES'', ''D'' @ [CHR 0xD3] @ ''LARES'', ''DOLARES'',
      ''EUROS'', ''EURO'', ''REALES'', ''REALE'', ''PESOS'', ''PESO'']"

definition comsol_rx_moneda :: "string \<Rightarrow> string option" where
  "comsol_rx_moneda s = search_bounded True comsol_moneda_words None s"

text \<open>\<^verbatim>\<open>any(k in n for k in ks)\<close>.\<close>

definition any_in :: "string list \<Rightarrow> string \<Rightarrow> bool" where
  "any_in ks n = list_ex (\<lambda>k. contains_str k n) ks"

text \<open>
  \<^verbatim>\<open>_guess_currency_from_sheet_name\<close>: the version of \<^verbatim>\<open>prosegur_unificado_v4_2.py\<close> answers
  the empty string when nothing is recognised, the version of \<^verbatim>\<open>comsol.py\<close> answers
  GUARANIES.
\<close>

definition guess_currency_from_sheet_name :: "string \<Rightarrow> string" where
  "guess_currency_from_sheet_name sheet_name =
     (let n = fold_text sheet_name in
      if any_in [''USD'', ''DOLAR'', ''D'' @ [CHR 0xD3] @ ''LAR'', ''DOLARES'',
                 ''D'' @ [CHR 0xD3] @ ''LARES''] n then ''DOLARES''
      else if any_in [''EUR'', ''EURO'', ''EUROS''] n then ''EUROS''
      else if any_in [''BRL'', ''REAL'', ''REALES''] n then ''REALES''
      else if any_in [''ARS'', ''PESO'', ''PESOS'', ''ARG''] n then ''PESOS''
      else if any_in [''PYG'', ''GUARANI'', ''GUARAN'' @ [CHR 0xCD]] n then ''GUARANIES''
      else [])"

definition comsol_guess_currency_from_sheet_name :: "string \<Rightarrow> string" where
  "comsol_guess_currency_from_sheet_name sheet_name =
     (let n = fold_text sheet_name in
      if any_in [''USD'', ''DOLAR'', ''D'' @ [CHR 0xD3] @ ''LAR'', ''DOLARES'',
                 ''D'' @ [CHR 0xD3] @ ''LARES''] n then ''DOLARES''
      else if any_in [''EUR'', ''EURO'', ''EUROS''] n then ''EUROS''
      else if any_in [''BRL'', ''REAL'', ''REALES''] n then ''REALES''
      else if any_in [''ARS'', ''PESO'', ''PESOS'', ''ARG''] n then ''PESOS''
      else if any_in [''PYG'', ''GUARANI'', ''GUARAN'' @ [CHR 0xCD]] n then ''GUARANIES''
      else ''GUARANIES'')"

text \<open>
  \<^verbatim>\<open>_normaliza_moneda_iso\<close> of \<^verbatim>\<open>comsol.py\<close>. Its key lists also hold the guarani sign
  U+20B2 and the euro sign U+20AC, which no Latin-1 text contains; they are left out.
\<close>

definition normaliza_moneda_iso :: "string \<Rightarrow> string" where
  "normaliza_moneda_iso token =
     (let t = strip (fold_text token) in
      if any_in [''PYG'', ''GS'', ''G$'', ''GUARANI'', ''GUARANIES'',
                 ''GUARAN'' @ [CHR 0xCD]] t then ''PYG''
      else if any_in [''USD'', ''US$'', ''U$S'', ''DOLAR'', ''D'' @ [CHR 0xD3] @ ''LAR'',
                      ''DOLARES'', ''D'' @ [CHR 0xD3] @ ''LARES''] t then ''USD''
      else if any_in [''EUR'', ''EURO'', ''EUROS''] t then ''EUR''
      else if any_in [''BRL'', ''R$'', ''REAL'', ''REALES''] t then ''BRL''
      else if any_in [''ARS'', ''PESO'', ''PESOS'', ''ARG''] t then ''ARS''
      else if contains_str ''$'' t then ''USD''
      else if t \<noteq> [] then t else ''PYG'')"

text \<open>
  \<^verbatim>\<open>re.search(r'ESTADO DE CUENTA DE\s+(.*?)\s+AL:', linea, re.IGNORECASE)\<close>, group 1. After
  the keyword the engine tries the greedy \<^verbatim>\<open>\s+\<close> from its longest length down to one
  (\<open>tipo_ws\<close>), and for each the lazy group from the shortest up (\<open>tipo_lazy\<close>); the group
  stops where white space followed by \<^verbatim>\<open>AL:\<close> begins, and it cannot cross a line feed.
\<close>

definition tipo_tail :: "string \<Rightarrow> bool" where
  "tipo_tail s =
     (case s of
        [] \<Rightarrow> False
      | c # cs \<Rightarrow> is_space c \<and> ci_starts_with ''AL:'' (dropWhile is_space s))"

fun tipo_lazy :: "string \<Rightarrow> string \<Rightarrow> string option" where
  "tipo_lazy acc [] = None"
| "tipo_lazy acc (c # cs) =
     (if tipo_tail (c # cs) then Some acc
      else if c = CHR 0x0A then None
      else tipo_lazy (acc @ [c]) cs)"

fun tipo_ws :: "nat \<Rightarrow> string \<Rightarrow> string option" where
  "tipo_ws 0 rest = None"
| "tipo_ws (Suc k) rest =
     (case tipo_lazy [] (drop (Suc k) rest) of
        Some g \<Rightarrow> Some g
      | None \<Rightarrow> tipo_ws k rest)"

fun search_tipo :: "string \<Rightarrow> string option" where
  "search_tipo [] = None"
| "search_tipo (c # cs) =
     (if ci_starts_with ''ESTADO DE CUENTA DE'' (c # cs) then
        (let rest = drop 19 (c # cs) in
         case tipo_ws (length (takeWhile is_space rest)) rest of
           Some g \<Rightarrow> Some g
         | None \<Rightarrow> search_tipo cs)
      else search_tipo cs)"

text \<open>\<^verbatim>\<open>mapa_clasif.get(texto_norm, texto.strip())\<close> on the text of group 1.\<close>

definition mapa_clasif :: "(string \<times> string) list" where
  "mapa_clasif =
     [(''BANCO'', ''BCO''), (''ATM'', ''ATM''), (''BULTOS DE BANCO'', ''BULTO BCO''),
      (''BULTOS DE ATM'', ''BULTO ATM'')]"

definition clasifica :: "string \<Rightarrow> string" where
  "clasifica grupo =
     (let texto = strip grupo in
      case map_of mapa_clasif (fold_text texto) of
        Some v \<Rightarrow> v
      | None \<Rightarrow> strip texto)"

text \<open>\<^verbatim>\<open>re.search(r'AL[:\s]+(\d{1,2}/\d{1,2}/\d{4})', linea, re.IGNORECASE)\<close> of \<^verbatim>\<open>comsol.py\<close>.\<close>

definition colon_or_space :: "char \<Rightarrow> bool" where
  "colon_or_space c = (c = CHR '':'' \<or> is_space c)"

fun comsol_search_fecha_al :: "string \<Rightarrow> string option" where
  "comsol_search_fecha_al [] = None"
| "comsol_search_fecha_al (c # cs) =
     (if ci_starts_with ''AL'' (c # cs) \<and> takeWhile colon_or_space (drop 2 (c # cs)) \<noteq> [] then
        (case match_fecha (dropWhile colon_or_space (drop 2 (c # cs))) of
           Some (m, rest) \<Rightarrow> Some m
         | None \<Rightarrow> comsol_search_fecha_al cs)
      else comsol_search_fecha_al cs)"

text \<open>\<^verbatim>\<open>str.split()\<close> with no argument: the maximal runs of characters that are not white space.\<close>

fun split_acc :: "string \<Rightarrow> string \<Rightarrow> string list" where
  "split_acc cur [] = (if cur = [] then [] else [cur])"
| "split_acc cur (c # cs) =
     (if is_space c then (if cur = [] then split_acc [] cs else cur # split_acc [] cs)
      else split_acc (cur @ [c]) cs)"

definition split_ws :: "string \<Rightarrow> string list" where
  "split_ws s = split_acc [] s"

text \<open>
  The receipt tests: \<^verbatim>\<open>re.fullmatch(r'\d{6,}', p)\<close> in \<^verbatim>\<open>prosegur_unificado_v4_2.py\<close>, at
  least four digit characters in \<^verbatim>\<open>comsol.py\<close>. \<open>idx_rec_of\<close> is
  \<^verbatim>\<open>next((i for i, p in enumerate(parts[1:], 1) if test(p)), None)\<close>.
\<close>

definition is_recibo :: "string \<Rightarrow> bool" where
  "is_recibo p = (length p \<ge> 6 \<and> list_all is_decimal p)"

definition comsol_is_recibo :: "string \<Rightarrow> bool" where
  "comsol_is_recibo p = (length (filter py_isdigit (strip_accents p)) \<ge> 4)"

definition idx_rec_of :: "(string \<Rightarrow> bool) \<Rightarrow> string list \<Rightarrow> nat option" where
  "idx_rec_of test parts = map_option Suc (first_index test (drop 1 parts))"

record banco_state = ec_state +
  moneda_actual :: string

record v4_banco_state = banco_state +
  clasificacion :: string

record comsol_banco_state = banco_state +
  saldo_anterior_hoja :: string

record registro_banco = registro_base +
  HOJA_ORIGEN :: string
  MONEDA :: string
  MONTO :: string

record registro_banco_saldo = registro_banco +
  SALDO_ANTERIOR :: string

text \<open>
  The fields read off the tokens once the receipt is found at index \<open>i\<close>: branch, receipt,
  parcels and amount.
\<close>

definition campos_banco :: "string list \<Rightarrow> nat \<Rightarrow> string \<times> string \<times> string \<times> string" where
  "campos_banco parts i =
     (strip (join_sp (take (i - 1) (drop 1 parts))),
      parts ! i,
      (if i + 1 < length parts then parts ! (i + 1) else []),
      (if i + 2 < length parts then parts ! (i + 2) else []))"

text \<open>The loop body of \<^verbatim>\<open>get_ec_banco\<close> in \<^verbatim>\<open>prosegur_unificado_v4_2.py\<close>, for one sheet.\<close>

definition ec_banco_step ::
  "string \<Rightarrow> string \<Rightarrow> v4_banco_state \<Rightarrow> string list
     \<Rightarrow> flow \<times> v4_banco_state \<times> registro_banco list" where
  "ec_banco_step nombre_hoja agencia_fallback st row =
     (let linea = line_join row; linea_up = fold_text linea in
      if linea = [] then (Next, st, [])
      else
        (case sucursal_de linea linea_up of
           Some g \<Rightarrow> (Next, st\<lparr>agencia := strip g\<rparr>, [])
         | None \<Rightarrow>
        (let st1 = (if contains_str ''ESTADO DE CUENTA DE'' linea_up then
                      (case search_tipo linea of
                         Some g \<Rightarrow> st\<lparr>clasificacion := clasifica g\<rparr>
                       | None \<Rightarrow> st)
                    else st) in
         case fecha_archivo_de linea linea_up of
           Some f \<Rightarrow> (Next, st1\<lparr>fecha_archivo := f\<rparr>, [])
         | None \<Rightarrow>
         if linea_up = ''INGRESOS''
           then (Next, st1\<lparr>ing_egr := ''IN'', motivo_actual := []\<rparr>, [])
         else if linea_up = ''EGRESOS''
           then (Next, st1\<lparr>ing_egr := ''OUT'', motivo_actual := []\<rparr>, [])
         else if contains_str ''INFORME DE PROCESOS'' linea_up then (Stop, st1, [])
         else if rx_totales linea then (Next, st1, [])
         else
           (let st2 = (case rx_moneda linea of
                         Some m \<Rightarrow> st1\<lparr>moneda_actual := m\<rparr>
                       | None \<Rightarrow> st1) in
            case rx_fecha_linea linea of
              None \<Rightarrow>
                if ing_egr st2 \<noteq> [] then (Next, st2\<lparr>motivo_actual := strip linea\<rparr>, [])
                else (Next, st2, [])
            | Some m_date \<Rightarrow>
                if ing_egr st2 \<noteq> [] \<and> motivo_actual st2 \<noteq> [] then
                  (let parts = split_ws linea in
                   if parts = [] then (Next, st2, [])
                   else
                     (case idx_rec_of is_recibo parts of
                        None \<Rightarrow> (Next, st2, [])
                      | Some i \<Rightarrow>
                          (case campos_banco parts i of
                             (sucursal, recibo, bultos, importe) \<Rightarrow>
                               (Next, st2,
                                [\<lparr>FECHA_OPER = parts ! 0, SUCURSAL = sucursal, RECIBO = recibo,
                                  BULTOS = bultos, ING_EGR = ing_egr st2,
                                  CLASIFICACION = clasificacion st2,
                                  FECHA_ARCHIVO = fecha_archivo st2,
                                  MOTIVO_MOVIMIENTO = motivo_actual st2,
                                  AGENCIA = (if agencia st2 \<noteq> [] then agencia st2
                                             else agencia_fallback),
                                  HOJA_ORIGEN = nombre_hoja, MONEDA = moneda_actual st2,
                                  MONTO = importe\<rparr>]))))
                else (Next, st2, [])))))"

fun ec_banco_run ::
  "string \<Rightarrow> string \<Rightarrow> v4_banco_state \<Rightarrow> string list list
     \<Rightarrow> v4_banco_state \<times> registro_banco list" where
  "ec_banco_run hoja fb st [] = (st, [])"
| "ec_banco_run hoja fb st (row # rows) =
     (case ec_banco_step hoja fb st row of
        (Stop, st', out) \<Rightarrow> (st', out)
      | (Next, st', out) \<Rightarrow>
          (case ec_banco_run hoja fb st' rows of (st'', outs) \<Rightarrow> (st'', out @ outs)))"

definition banco_state0 :: "string \<Rightarrow> v4_banco_state" where
  "banco_state0 nombre_hoja =
     \<lparr>agencia = [], fecha_archivo = [], ing_egr = [], motivo_actual = [],
      moneda_actual = (let g = guess_currency_from_sheet_name nombre_hoja in
                       if g \<noteq> [] then g else ''GUARANIES''),
      clasificacion = []\<rparr>"

definition get_ec_banco ::
  "string \<Rightarrow> (string \<times> string list list) list \<Rightarrow> registro_banco list" where
  "get_ec_banco agencia_fallback hojas =
     concat (map (\<lambda>(nombre_hoja, df).
                    snd (ec_banco_run nombre_hoja agencia_fallback (banco_state0 nombre_hoja) df))
                 hojas)"

text \<open>
  The loop body of \<^verbatim>\<open>get_ec_banco\<close> in \<^verbatim>\<open>comsol.py\<close>, for one sheet. No statement of this
  loop assigns a non-empty motive.
\<close>

definition comsol_ec_banco_step ::
  "string \<Rightarrow> comsol_banco_state \<Rightarrow> string list
     \<Rightarrow> flow \<times> comsol_banco_state \<times> registro_banco_saldo list" where
  "comsol_ec_banco_step nombre_hoja st row =
     (let strip_cells = map strip row;
          linea = line_join row;
          linea_up = fold_text linea in
      if linea = [] then (Next, st, [])
      else if contains_str ''SALDO ANTERIOR'' linea_up \<and> \<not> saldo_anterior_hoja st \<noteq> [] then
        (let valores = extraer_saldos_desde_fila strip_cells ''SALDO ANTERIOR'' in
         if valores \<noteq> [] then (Next, st\<lparr>saldo_anterior_hoja := valores ! 0\<rparr>, [])
         else (Next, st, []))
      else if contains_str ''PROSEGUR PARAGUAY S.A.'' linea_up then
        (case search_sucursal linea of
           Some g \<Rightarrow> (Next, st\<lparr>agencia := strip g\<rparr>, [])
         | None \<Rightarrow> (Next, st, []))
      else if contains_str ''ESTADO DE CUENTA DE'' linea_up then
        (let st1 = (case comsol_search_fecha_al linea of
                      Some f \<Rightarrow> st\<lparr>fecha_archivo := f\<rparr>
                    | None \<Rightarrow> st);
             st2 = (case comsol_rx_moneda linea of
                      Some m \<Rightarrow> st1\<lparr>moneda_actual := comsol_guess_currency_from_sheet_name m\<rparr>
                    | None \<Rightarrow> st1)
         in (Next, st2, []))
      else if linea_up = ''INGRESOS'' then (Next, st\<lparr>ing_egr := ''IN'', motivo_actual := []\<rparr>, [])
      else if linea_up = ''EGRESOS'' then (Next, st\<lparr>ing_egr := ''OUT'', motivo_actual := []\<rparr>, [])
      else if contains_str ''INFORME DE PROCESOS'' linea_up then (Stop, st, [])
      else if rx_totales linea then (Next, st, [])
      else
        (case rx_fecha_linea linea of
           None \<Rightarrow> (Next, st, [])
         | Some fecha_oper \<Rightarrow>
             if ing_egr st \<noteq> [] \<and> motivo_actual st \<noteq> [] then
               (let parts = filter (\<lambda>c. c \<noteq> []) strip_cells in
                if parts = [] then (Next, st, [])
                else
                  (case idx_rec_of comsol_is_recibo parts of
                     None \<Rightarrow> (Next, st, [])
                   | Some i \<Rightarrow>
                       (case campos_banco parts i of
                          (sucursal, recibo, bultos, importe) \<Rightarrow>
                            (Next, st,
                             [\<lparr>FECHA_OPER = fecha_oper, SUCURSAL = sucursal, RECIBO = recibo,
                               BULTOS = bultos, ING_EGR = ing_egr st, CLASIFICACION = ''BCO'',
                               FECHA_ARCHIVO = fecha_archivo st,
                               MOTIVO_MOVIMIENTO = motivo_actual st,
                               AGENCIA = agencia st,
                               HOJA_ORIGEN = nombre_hoja,
                               MONEDA = normaliza_moneda_iso (moneda_actual st),
                               MONTO = importe,
                               SALDO_ANTERIOR = saldo_anterior_hoja st\<rparr>]))))
             else (Next, st, [])))"

fun comsol_ec_banco_run ::
  "string \<Rightarrow> comsol_banco_state \<Rightarrow> string list list
     \<Rightarrow> comsol_banco_state \<times> registro_banco_saldo list" where
  "comsol_ec_banco_run hoja st [] = (st, [])"
| "comsol_ec_banco_run hoja st (row # rows) =
     (case comsol_ec_banco_step hoja st row of
        (Stop, st', out) \<Rightarrow> (st', out)
      | (Next, st', out) \<Rightarrow>
          (case comsol_ec_banco_run hoja st' rows of (st'', outs) \<Rightarrow> (st'', out @ outs)))"

definition comsol_banco_state0 :: "string \<Rightarrow> comsol_banco_state" where
  "comsol_banco_state0 nombre_hoja =
     \<lparr>agencia = [], fecha_archivo = [], ing_egr = [], motivo_actual = [],
      moneda_actual = comsol_guess_currency_from_sheet_name nombre_hoja,
      saldo_anterior_hoja = []\<rparr>"

definition comsol_get_ec_banco ::
  "(string \<times> string list list) list \<Rightarrow> registro_banco_saldo list" where
  "comsol_get_ec_banco hojas =
     concat (map (\<lambda>(nombre_hoja, df).
                    snd (comsol_ec_banco_run nombre_hoja (comsol_banco_state0 nombre_hoja) df))
                 hojas)"


section \<open>Detail rows of the bank cash statement\<close>




section \<open>Numbers in inventory cells\<close>

text \<open>
  The inventory sheets are read with \<^verbatim>\<open>dtype=object\<close>; the model keeps a cell as its text
  (a cell that holds an integer is the decimal text of that integer, for which the two
  paths of \<^verbatim>\<open>_to_int\<close> agree). \<open>txt_cell\<close> is \<^verbatim>\<open>_txt\<close> and \<open>upper\<close> is \<^verbatim>\<open>_upper\<close>: white space
  runs become one blank, then \<^verbatim>\<open>str.upper\<close>, with no accent folding.
\<close>

definition txt_cell :: "string \<Rightarrow> string" where
  "txt_cell x = strip x"

fun collapse_ws :: "bool \<Rightarrow> string \<Rightarrow> string" where
  "collapse_ws in_run [] = []"
| "collapse_ws in_run (c # cs) =
     (if is_space c then (if in_run then collapse_ws True cs else CHR '' '' # collapse_ws True cs)
      else c # collapse_ws False cs)"

definition upper :: "string \<Rightarrow> string" where
  "upper x = py_upper (collapse_ws False (txt_cell x))"

text \<open>The value of a string of decimal digits, as \<^verbatim>\<open>int\<close> reads it.\<close>

definition digit_val :: "char \<Rightarrow> int" where
  "digit_val c = (case first_index (\<lambda>d. d = c) ''0123456789'' of Some n \<Rightarrow> int n | None \<Rightarrow> 0)"

definition digits_val :: "string \<Rightarrow> int" where
  "digits_val ds = foldl (\<lambda>acc c. 10 * acc + digit_val c) 0 ds"

text \<open>
  \<^verbatim>\<open>_to_int\<close> on a text. A text of the form digits, dot, digits goes through
  \<^verbatim>\<open>int(float(s))\<close>: the model takes the integer part, which is what Python computes for
  texts of at most 15 significant digits (the rounding of longer texts to a double is
  not modelled). Any other text is reduced to its digits and minus signs; \<^verbatim>\<open>int\<close> accepts
  the result when it is an optional minus sign followed by digits, and the
  \<^verbatim>\<open>ValueError\<close> of any other shape is caught and gives \<^verbatim>\<open>None\<close>.
\<close>

definition is_decimal_point_number :: "string \<Rightarrow> bool" where
  "is_decimal_point_number s =
     (let a = takeWhile is_decimal s; r = dropWhile is_decimal s in
      a \<noteq> [] \<and> starts_with ''.'' r \<and> tl r \<noteq> [] \<and> list_all is_decimal (tl r))"

definition to_int :: "string \<Rightarrow> int option" where
  "to_int x =
     (let s = strip (map (\<lambda>c. if c = CHR 0xA0 then CHR '' '' else c) (txt_cell x)) in
      if s = [] then None
      else if is_decimal_point_number s then Some (digits_val (takeWhile is_decimal s))
      else
        (let digits = filter (\<lambda>c. is_decimal c \<or> c = CHR ''-'') s in
         if digits = [] \<or> digits = ''-'' \<or> digits = ''--'' then None
         else if list_all is_decimal digits then Some (digits_val digits)
         else if starts_with ''-'' digits \<and> tl digits \<noteq> [] \<and> list_all is_decimal (tl digits)
           then Some (- digits_val (tl digits))
         else None))"

text \<open>\<^verbatim>\<open>_to_int_denom\<close>: a cell with a colon or a slash is never a denomination.\<close>

definition to_int_denom :: "string \<Rightarrow> int option" where
  "to_int_denom x =
     (let s_raw = txt_cell x in
      if mem (CHR '':'') s_raw \<or> mem (CHR ''/'') s_raw then None
      else to_int s_raw)"


section \<open>The inventory block parser\<close>

text \<open>
  \<^verbatim>\<open>get_inv_atm\<close> and \<^verbatim>\<open>get_inv_bco\<close> of \<^verbatim>\<open>prosegur_unificado_v4_2.py\<close>. The two walk the
  rows of a block with the same loop body and differ in their keyword lists and in how
  the block is bounded. The inventory date and the resolved agency are read from the
  sheet before the walk and do not depend on it; they are parameters here. The record
  fields AGENCIA and MONEDA of the inventory line carry the suffix INV, since the ledger
  records have fields of those names.
\<close>

definition atm_agrup_tokens :: "string list" where
  "atm_agrup_tokens = [''TESORO ATM'', ''FAJOS ATM'', ''PICOS ATM'']"

definition atm_tipo_tokens :: "string list" where
  "atm_tipo_tokens = [''BILLETES (LADRILLOS)'', ''BILLETES'']"

definition bco_agrup_tokens :: "string list" where
  "bco_agrup_tokens = [''TESORO EFECTIVO'', ''FAJOS EFECTIVOS'', ''PICOS EFECTIVO'']"

definition bco_tipo_tokens :: "string list" where
  "bco_tipo_tokens =
     [''BILLETES (LADRILLOS)'', ''MONEDAS (BOLSAS)'', ''MONEDAS (PAQUETES)'', ''BILLETES'',
      ''MONEDAS'']"

definition fin_moneda_up :: string where
  "fin_moneda_up = ''TOTAL DE LA MONEDA''"

definition stop_row_tokens :: "string list" where
  "stop_row_tokens =
     [''SUB TOTAL'', ''SUBTOTAL'', ''TOTAL DEL DEP'' @ [CHR 0xD3] @ ''SITO'', ''TOTAL DEL DEPOSITO'',
      ''TOTAL DEP'' @ [CHR 0xD3] @ ''SITO'', ''TOTAL DEPOSITO'']"

text \<open>\<^verbatim>\<open>sep.join(xs)\<close> for the separator of \<^verbatim>\<open>buscar_fin_y_codigo\<close>.\<close>

fun join_bar :: "string list \<Rightarrow> string" where
  "join_bar [] = []"
| "join_bar [x] = x"
| "join_bar (x # y # zs) = x @ '' | '' @ join_bar (y # zs)"

record inv_ctx =
  cur_divisa :: string
  cur_agrup :: string
  cur_tipo :: string

record inv_reg =
  FECHA_INVENTARIO :: string
  DIVISA :: string
  AGENCIA_INV :: string
  AGRUPACION_EFECTIVO :: string
  TIPO_VALOR :: string
  DENOMINACION :: int
  DEPOSITO :: int
  CJE_DEP :: int
  CANJE :: int
  MONEDA_INV :: int
  IMPORTE_TOTAL :: int

text \<open>
  The five numbers to the right of the denomination: each is the first cell after the
  last one found that \<^verbatim>\<open>_to_int\<close> reads; once none is found the rest are 0. The
  argument is the list of cells to the right of the current column.
\<close>

fun cinco_numeros :: "nat \<Rightarrow> string list \<Rightarrow> int list" where
  "cinco_numeros 0 derecha = []"
| "cinco_numeros (Suc k) derecha =
     (case dropWhile (\<lambda>c. to_int c = None) derecha of
        [] \<Rightarrow> 0 # cinco_numeros k []
      | c # cs \<Rightarrow> (case to_int c of Some v \<Rightarrow> v | None \<Rightarrow> 0) # cinco_numeros k cs)"

text \<open>\<^verbatim>\<open>ups = [_upper(c) for c in row if _txt(c)]\<close> and the joined upper-cased texts.\<close>

definition ups_of :: "string list \<Rightarrow> string list" where
  "ups_of row = map upper (filter (\<lambda>c. txt_cell c \<noteq> []) row)"

definition is_stop_line :: "string list \<Rightarrow> bool" where
  "is_stop_line row =
     (let up_line = join_sp (map upper row) in
      contains_str fin_moneda_up up_line \<or> list_ex (\<lambda>tok. contains_str tok up_line) stop_row_tokens)"

text \<open>
  The body of the row loop. The state is the three sticky classifiers; the result is the
  new state and the lines appended by this row (none or one).
\<close>

definition inv_row_step ::
  "string list \<Rightarrow> string list \<Rightarrow> string \<Rightarrow> string \<Rightarrow> inv_ctx \<Rightarrow> string list
     \<Rightarrow> inv_ctx \<times> inv_reg list" where
  "inv_row_step agrup_tokens tipo_tokens fecha agencia_resuelta ctx row =
     (if is_stop_line row then (ctx, [])
      else
        (let ups = ups_of row;
             ctx1 = (if List.member ups ''USD'' then ctx\<lparr>cur_divisa := ''USD''\<rparr>
                     else if List.member ups ''PYG'' then ctx\<lparr>cur_divisa := ''PYG''\<rparr>
                     else ctx) in
         case first_index (\<lambda>c. to_int_denom c \<noteq> None) row of
           None \<Rightarrow> (ctx1, [])
         | Some denom_col \<Rightarrow>
             (let denom_val = (case to_int_denom (row ! denom_col) of Some v \<Rightarrow> v | None \<Rightarrow> 0);
                  left_up = join_sp (ups_of (take denom_col row));
                  ctx2 = (case List.find (\<lambda>t. contains_str t left_up) tipo_tokens of
                            Some t \<Rightarrow> ctx1\<lparr>cur_tipo := t\<rparr>
                          | None \<Rightarrow> ctx1);
                  ctx3 = (case List.find (\<lambda>a. contains_str a left_up) agrup_tokens of
                            Some a \<Rightarrow> ctx2\<lparr>cur_agrup := a\<rparr>
                          | None \<Rightarrow> ctx2) in
              if \<not> (cur_agrup ctx3 \<noteq> [] \<or> cur_tipo ctx3 \<noteq> []) then (ctx3, [])
              else
                (let vals = cinco_numeros 5 (drop (denom_col + 1) row) in
                 (ctx3,
                  [\<lparr>FECHA_INVENTARIO = fecha,
                    DIVISA = (if cur_divisa ctx3 \<noteq> [] then cur_divisa ctx3 else ''PYG''),
                    AGENCIA_INV = agencia_resuelta,
                    AGRUPACION_EFECTIVO = cur_agrup ctx3,
                    TIPO_VALOR = cur_tipo ctx3,
                    DENOMINACION = denom_val,
                    DEPOSITO = vals ! 0, CJE_DEP = vals ! 1, CANJE = vals ! 2,
                    MONEDA_INV = vals ! 3, IMPORTE_TOTAL = vals ! 4\<rparr>])))))"

fun inv_walk ::
  "string list \<Rightarrow> string list \<Rightarrow> string \<Rightarrow> string \<Rightarrow> inv_ctx \<Rightarrow> string list list
     \<Rightarrow> inv_ctx \<times> inv_reg list" where
  "inv_walk ags tps fecha ag ctx [] = (ctx, [])"
| "inv_walk ags tps fecha ag ctx (row # rows) =
     (case inv_row_step ags tps fecha ag ctx row of
        (ctx', out) \<Rightarrow>
          (case inv_walk ags tps fecha ag ctx' rows of (ctx'', outs) \<Rightarrow> (ctx'', out @ outs)))"

text \<open>
  Bounds of the block. \<open>capturar_codigo_total\<close> is
  \<^verbatim>\<open>re.search(r"TOTAL\s+DE\s+LA\s+MONEDA\s+([A-Z]{3})", row_up, re.IGNORECASE)\<close>, group 1
  upper-cased; \<open>eat_lit\<close> and \<open>eat_ws\<close> consume a literal and a non-empty run of white
  space.
\<close>

definition eat_lit :: "string \<Rightarrow> string \<Rightarrow> string option" where
  "eat_lit lit s = (if ci_starts_with lit s then Some (drop (length lit) s) else None)"

definition eat_ws :: "string \<Rightarrow> string option" where
  "eat_ws s = (if takeWhile is_space s = [] then None else Some (dropWhile is_space s))"

definition is_ascii_letter :: "char \<Rightarrow> bool" where
  "is_ascii_letter c =
     (case chart_row c of
        (False, True, False) \<Rightarrow> is_cased c
      | (False, True, True) \<Rightarrow> is_cased c
      | _ \<Rightarrow> False)"

definition codigo_at :: "string \<Rightarrow> string option" where
  "codigo_at s =
     (case Option.bind (Option.bind (Option.bind (Option.bind (Option.bind (Option.bind
             (Option.bind (eat_lit ''TOTAL'' s) eat_ws) (eat_lit ''DE'')) eat_ws)
             (eat_lit ''LA'')) eat_ws) (eat_lit ''MONEDA'')) eat_ws of
        None \<Rightarrow> None
      | Some r \<Rightarrow>
          if length (take 3 r) = 3 \<and> list_all is_ascii_letter (take 3 r)
          then Some (py_upper (take 3 r)) else None)"

fun capturar_codigo_total :: "string \<Rightarrow> string option" where
  "capturar_codigo_total [] = None"
| "capturar_codigo_total (c # cs) =
     (case codigo_at (c # cs) of
        Some code \<Rightarrow> Some code
      | None \<Rightarrow> capturar_codigo_total cs)"

definition buscar_fin_y_codigo :: "string list list \<Rightarrow> nat \<times> string option" where
  "buscar_fin_y_codigo df =
     (case first_index (\<lambda>row. contains_str fin_moneda_up (join_bar (map upper row))) df of
        None \<Rightarrow> (length df, None)
      | Some i \<Rightarrow> (i, capturar_codigo_total (join_bar (map upper (df ! i)))))"

definition buscar_inicio_por_divisa :: "string list list \<Rightarrow> nat \<Rightarrow> nat option" where
  "buscar_inicio_por_divisa df row_end =
     first_index (\<lambda>row. List.member (ups_of row) ''USD'' \<or> List.member (ups_of row) ''PYG'')
       (take row_end df)"

definition fila_con_agrupacion :: "string list \<Rightarrow> bool" where
  "fila_con_agrupacion row =
     (case first_index (\<lambda>c. to_int_denom c \<noteq> None) row of
        None \<Rightarrow> False
      | Some denom_col \<Rightarrow>
          list_ex (\<lambda>tok. contains_str tok (join_sp (ups_of (take denom_col row))))
            atm_agrup_tokens)"

definition buscar_inicio_fallback :: "string list list \<Rightarrow> nat \<Rightarrow> nat option" where
  "buscar_inicio_fallback df row_end = first_index fila_con_agrupacion (take row_end df)"

datatype inv_error = NoInicio

text \<open>
  \<^verbatim>\<open>localiza_bloque\<close>. The start is \<^verbatim>\<open>buscar_inicio_por_divisa(...) or
  buscar_inicio_fallback(...)\<close>: Python's \<^verbatim>\<open>or\<close> also goes to the fallback when the first
  search answers row 0. With no start the function raises \<^verbatim>\<open>ValueError\<close>, and the sheet
  is omitted.
\<close>

definition localiza_bloque ::
  "string list list \<Rightarrow> inv_error + (nat \<times> nat \<times> string option)" where
  "localiza_bloque df =
     (case buscar_fin_y_codigo df of
        (row_end, code_total) \<Rightarrow>
          (let por_divisa = buscar_inicio_por_divisa df row_end;
               row_start = (case por_divisa of
                              None \<Rightarrow> buscar_inicio_fallback df row_end
                            | Some i \<Rightarrow> if i \<noteq> 0 then Some i
                                         else buscar_inicio_fallback df row_end) in
           case row_start of
             None \<Rightarrow> Inl NoInicio
           | Some s \<Rightarrow> Inr (s, row_end, code_total)))"

definition normaliza_divisa_inventario :: "string \<Rightarrow> string" where
  "normaliza_divisa_inventario code_upper =
     (let code = py_upper code_upper in
      if contains_str ''PYG'' code \<or> contains_str ''GUARANI'' (strip_accents code) then ''PYG''
      else if contains_str ''USD'' code \<or> contains_str ''DOLAR'' (strip_accents code) then ''USD''
      else if code \<noteq> [] then code else ''PYG'')"

text \<open>One sheet of \<^verbatim>\<open>get_inv_atm\<close>, and the lines of all sheets before the final sort.\<close>

definition inv_atm_sheet ::
  "string \<Rightarrow> string \<Rightarrow> string list list \<Rightarrow> inv_error + inv_reg list" where
  "inv_atm_sheet fecha agencia_resuelta df =
     (case localiza_bloque df of
        Inl e \<Rightarrow> Inl e
      | Inr (row_start, row_end, code_total) \<Rightarrow>
          Inr (snd (inv_walk atm_agrup_tokens atm_tipo_tokens fecha agencia_resuelta
                 \<lparr>cur_divisa = normaliza_divisa_inventario
                                 (case code_total of Some c \<Rightarrow> c | None \<Rightarrow> []),
                  cur_agrup = [], cur_tipo = []\<rparr>
                 (drop row_start (take row_end df)))))"

definition get_inv_atm :: "(string \<times> string \<times> string list list) list \<Rightarrow> inv_reg list" where
  "get_inv_atm hojas =
     concat (map (\<lambda>(fecha, agencia_resuelta, df).
                    case inv_atm_sheet fecha agencia_resuelta df of
                      Inl e \<Rightarrow> []
                    | Inr regs \<Rightarrow> regs)
                 hojas)"

text \<open>
  One sheet of \<^verbatim>\<open>get_inv_bco\<close>: the walk starts at the first row and ends before the
  first row that contains the end-of-currency phrase.
\<close>

definition inv_bco_sheet :: "string \<Rightarrow> string \<Rightarrow> string list list \<Rightarrow> inv_reg list" where
  "inv_bco_sheet fecha agencia_resuelta df =
     (let row_end = (case first_index
                            (\<lambda>row. contains_str fin_moneda_up (join_bar (map upper row))) df of
                       None \<Rightarrow> length df
                     | Some i \<Rightarrow> i) in
      snd (inv_walk bco_agrup_tokens bco_tipo_tokens fecha agencia_resuelta
             \<lparr>cur_divisa = [], cur_agrup = [], cur_tipo = []\<rparr>
             (take row_end df)))"

definition get_inv_bco :: "(string \<times> string \<times> string list list) list \<Rightarrow> inv_reg list" where
  "get_inv_bco hojas =
     concat (map (\<lambda>(fecha, agencia_resuelta, df). inv_bco_sheet fecha agencia_resuelta df) hojas)"


section \<open>Cells a denomination can come from\<close>

text \<open>
  A cell is a clean source of the denomination \<open>d\<close> when its text has neither a colon nor
  a slash and \<^verbatim>\<open>_to_int_denom\<close> reads \<open>d\<close> from it.
\<close>

definition clean_denom :: "int \<Rightarrow> string \<Rightarrow> bool" where
  "clean_denom d x =
     (\<not> mem (CHR '':'') (txt_cell x) \<and> \<not> mem (CHR ''/'') (txt_cell x)
      \<and> to_int_denom x = Some d)"


section \<open>The agency normalizer\<close>

text \<open>
  \<^verbatim>\<open>AGENCIA_ALIASES\<close>, \<^verbatim>\<open>_agencia_code_from_text\<close> and \<^verbatim>\<open>normalize_agencia_col\<close> of
  \<^verbatim>\<open>prosegur_unificado_v4_2.py\<close>. The dictionary is the list of its items in insertion
  order. \<open>word_search x t\<close> is \<^verbatim>\<open>re.search(r'\b' + re.escape(x) + r'\b', t)\<close>. The argument
  of the normalizer is \<open>None\<close> or a text.
\<close>

definition agencia_aliases :: "(string \<times> string list) list" where
  "agencia_aliases =
     [(''OVD'', [''OVD'', ''OVIEDO'']),
      (''ENC'', [''ENC'', ''ENCARNACION'', ''ENCARNACI'' @ [CHR 0xD3] @ ''N'', ''ENCA'']),
      (''CON'', [''CON'', ''CONCEPCION'', ''CONCEPCI'' @ [CHR 0xD3] @ ''N'']),
      (''ASU'', [''ASU'', ''ASUNCION'', ''ASUNCI'' @ [CHR 0xD3] @ ''N'']),
      (''CDE'', [''CDE'', ''CIUDAD DEL ESTE'', ''C. DEL ESTE'', ''C DEL ESTE'', ''CDE.''])]"

definition word_search :: "string \<Rightarrow> string \<Rightarrow> bool" where
  "word_search x t = (search_bounded False [x] None t \<noteq> None)"

definition agencia_code_from_text :: "string \<Rightarrow> string option" where
  "agencia_code_from_text text =
     (if text = [] then None
      else
        (let t = fold_text text in
         case List.find (\<lambda>code. word_search code t) (map fst agencia_aliases) of
           Some code \<Rightarrow> Some code
         | None \<Rightarrow>
             (case List.find (\<lambda>item. list_ex (\<lambda>al. word_search (fold_text al) t) (snd item))
                     agencia_aliases of
                Some item \<Rightarrow> Some (fst item)
              | None \<Rightarrow> None)))"

definition normalize_agencia_col :: "string option \<Rightarrow> string" where
  "normalize_agencia_col val =
     (case val of
        None \<Rightarrow> []
      | Some v \<Rightarrow>
          (case agencia_code_from_text v of
             Some code \<Rightarrow> if code \<noteq> [] then code else v
           | None \<Rightarrow> v))"


section \<open>Properties\<close>










subsection \<open>Section and motive gate of the ATM cash statement\<close>

lemma starts_with_self: "starts_with s s"
  by (induction s) simp_all

lemma contains_str_self: "contains_str s s"
  by (cases s) (simp_all add: starts_with_self)

lemma first_index_None: "first_index P xs = None \<longleftrightarrow> \<not> list_ex P xs"
  by (induction xs) simp_all

lemma not_mentions_section:
  "\<not> mentions_section row \<Longrightarrow>
     fold_text (line_join row) \<noteq> ''INGRESOS'' \<and> fold_text (line_join row) \<noteq> ''EGRESOS''"
  using contains_str_self by (auto simp: mentions_section_def)

lemmas step_splits = if_splits option.splits prod.splits

lemma ec_atm_step_emits:
  assumes "r \<in> set (snd (snd (ec_atm_step fb st row)))"
  shows "ing_egr st \<noteq> [] \<and> motivo_actual st \<noteq> []
         \<and> ING_EGR r = ing_egr st \<and> MOTIVO_MOVIMIENTO r = motivo_actual st"
  using assms
  by (auto simp: ec_atm_step_def Let_def split: step_splits)

lemma ec_atm_step_section:
  assumes "ing_egr (fst (snd (ec_atm_step fb st row))) \<noteq> ing_egr st"
  shows "(fold_text (line_join row) = ''INGRESOS''
            \<and> ing_egr (fst (snd (ec_atm_step fb st row))) = ''IN'')
       \<or> (fold_text (line_join row) = ''EGRESOS''
            \<and> ing_egr (fst (snd (ec_atm_step fb st row))) = ''OUT'')"
  using assms
  by (auto simp: ec_atm_step_def Let_def split: step_splits)

lemma ec_atm_step_section_ok:
  "section_ok (ing_egr st) \<Longrightarrow> section_ok (ing_egr (fst (snd (ec_atm_step fb st row))))"
  using ec_atm_step_section [of fb st row]
  by (cases "ing_egr (fst (snd (ec_atm_step fb st row))) = ing_egr st")
     (auto simp: section_ok_def)

lemma ec_atm_step_no_section:
  assumes "ing_egr st = []" "\<not> mentions_section row"
  shows "ing_egr (fst (snd (ec_atm_step fb st row))) = []
         \<and> snd (snd (ec_atm_step fb st row)) = []"
  using assms(1) not_mentions_section [OF assms(2)]
  by (auto simp: ec_atm_step_def Let_def split: step_splits)

lemma ec_atm_step_no_motive:
  assumes "motivo_actual st = []" "has_date_cell row"
  shows "motivo_actual (fst (snd (ec_atm_step fb st row))) = []
         \<and> snd (snd (ec_atm_step fb st row)) = []"
  using assms
  by (auto simp: ec_atm_step_def Let_def has_date_cell_def first_index_None split: step_splits)

lemma ec_atm_run_Cons:
  "ec_atm_step fb st row = (fl, st', out) \<Longrightarrow>
   ec_atm_run fb st (row # rows) =
     (case fl of Stop \<Rightarrow> (st', out)
      | Next \<Rightarrow> (fst (ec_atm_run fb st' rows), out @ snd (ec_atm_run fb st' rows)))"
  by (cases fl) (simp_all split: prod.splits)

lemma ec_atm_run_no_section:
  "ing_egr st = [] \<Longrightarrow> list_all (\<lambda>row. \<not> mentions_section row) grid
     \<Longrightarrow> snd (ec_atm_run fb st grid) = []"
proof (induction grid arbitrary: st)
  case Nil
  then show ?case by simp
next
  case (Cons row rows)
  obtain fl st' out where step: "ec_atm_step fb st row = (fl, st', out)"
    by (cases "ec_atm_step fb st row")
  from Cons.prems have "\<not> mentions_section row" by simp
  with Cons.prems(1) step have st': "ing_egr st' = []" and out: "out = []"
    using ec_atm_step_no_section [of st row fb] by simp_all
  from Cons.prems have "list_all (\<lambda>row. \<not> mentions_section row) rows" by simp
  with Cons.IH st' have "snd (ec_atm_run fb st' rows) = []" by blast
  with out show ?case
    by (cases fl) (simp_all add: ec_atm_run_Cons [OF step] del: ec_atm_run.simps)
qed

lemma ec_atm_run_no_motive:
  "motivo_actual st = [] \<Longrightarrow> list_all has_date_cell rows
     \<Longrightarrow> snd (ec_atm_run fb st rows) = []"
proof (induction rows arbitrary: st)
  case Nil
  then show ?case by simp
next
  case (Cons row rows)
  obtain fl st' out where step: "ec_atm_step fb st row = (fl, st', out)"
    by (cases "ec_atm_step fb st row")
  from Cons.prems have "has_date_cell row" by simp
  with Cons.prems(1) step have st': "motivo_actual st' = []" and out: "out = []"
    using ec_atm_step_no_motive [of st row fb] by simp_all
  from Cons.prems have "list_all has_date_cell rows" by simp
  with Cons.IH st' have "snd (ec_atm_run fb st' rows) = []" by blast
  with out show ?case
    by (cases fl) (simp_all add: ec_atm_run_Cons [OF step] del: ec_atm_run.simps)
qed

lemma ec_atm_run_records:
  "section_ok (ing_egr st) \<Longrightarrow> r \<in> set (snd (ec_atm_run fb st rows))
     \<Longrightarrow> (ING_EGR r = ''IN'' \<or> ING_EGR r = ''OUT'') \<and> MOTIVO_MOVIMIENTO r \<noteq> []"
proof (induction rows arbitrary: st)
  case Nil
  then show ?case by simp
next
  case (Cons row rows)
  obtain fl st' out where step: "ec_atm_step fb st row = (fl, st', out)"
    by (cases "ec_atm_step fb st row")
  have ok': "section_ok (ing_egr st')"
    using ec_atm_step_section_ok [OF Cons.prems(1), of fb row] step by simp
  have here: "r \<in> set out \<Longrightarrow> ?case"
    using ec_atm_step_emits [of r fb st row] step Cons.prems(1)
    by (auto simp: section_ok_def)
  from Cons.prems(2)
  have "r \<in> set out \<or> (fl = Next \<and> r \<in> set (snd (ec_atm_run fb st' rows)))"
    by (cases fl) (simp_all add: ec_atm_run_Cons [OF step] del: ec_atm_run.simps)
  then show ?case
    using here Cons.IH [OF ok'] by blast
qed

lemma get_ec_atm_records:
  "r \<in> set (get_ec_atm fb grid)
     \<Longrightarrow> (ING_EGR r = ''IN'' \<or> ING_EGR r = ''OUT'') \<and> MOTIVO_MOVIMIENTO r \<noteq> []"
  unfolding get_ec_atm_def
  by (rule ec_atm_run_records [of ec_state0]) (simp_all add: section_ok_def ec_state0_def)

lemma get_ec_atm_no_section:
  "list_all (\<lambda>row. \<not> mentions_section row) grid \<Longrightarrow> get_ec_atm fb grid = []"
  unfolding get_ec_atm_def
  by (rule ec_atm_run_no_section) (simp_all add: ec_state0_def)

text \<open>
  C1. In \<^verbatim>\<open>get_ec_atm\<close> (\<^verbatim>\<open>prosegur_unificado_v4_2.py\<close>) a row adds a record only when the
  section and the motive of the state are both non-empty, and the record carries them;
  the section changes only on a row whose folded joined text equals INGRESOS (to IN) or
  EGRESOS (to OUT); every record returned for a grid is IN or OUT with a non-empty motive;
  a grid none of whose rows contains INGRESOS or EGRESOS returns no record; and while the
  motive is empty, rows with a date cell add no record.
\<close>

theorem C1_section_motive_gate:
  "(r \<in> set (snd (snd (ec_atm_step fb st row))) \<longrightarrow>
      ing_egr st \<noteq> [] \<and> motivo_actual st \<noteq> []
      \<and> ING_EGR r = ing_egr st \<and> MOTIVO_MOVIMIENTO r = motivo_actual st)
   \<and> (ing_egr (fst (snd (ec_atm_step fb st row))) \<noteq> ing_egr st \<longrightarrow>
        (fold_text (line_join row) = ''INGRESOS''
           \<and> ing_egr (fst (snd (ec_atm_step fb st row))) = ''IN'')
        \<or> (fold_text (line_join row) = ''EGRESOS''
           \<and> ing_egr (fst (snd (ec_atm_step fb st row))) = ''OUT''))
   \<and> (q \<in> set (get_ec_atm fb grid) \<longrightarrow>
        (ING_EGR q = ''IN'' \<or> ING_EGR q = ''OUT'') \<and> MOTIVO_MOVIMIENTO q \<noteq> [])
   \<and> (list_all (\<lambda>row. \<not> mentions_section row) grid \<longrightarrow> get_ec_atm fb grid = [])
   \<and> (motivo_actual st = [] \<and> list_all has_date_cell rows \<longrightarrow>
        snd (ec_atm_run fb st rows) = [])"
  using ec_atm_step_emits [of r fb st row] ec_atm_step_section [of fb st row]
    get_ec_atm_records [of q fb grid] get_ec_atm_no_section [of grid fb]
    ec_atm_run_no_motive [of st rows fb]
  by blast


theorem C1_section_motive_gate_witness:
  "ing_egr \<lparr>agencia = [], fecha_archivo = [], ing_egr = ''IN'', motivo_actual = ''DEPOSITO''\<rparr> \<noteq> []
   \<and> fold_text (line_join ['' Ingresos '']) = ''INGRESOS''
   \<and> list_all (\<lambda>row. \<not> mentions_section row) [[''Retiro''], [''15/03/2024'', ''Centro'', ''77'']]
   \<and> get_ec_atm ''ASU'' [[''Retiro''], [''15/03/2024'', ''Centro'', ''77'']] = []
   \<and> list_all has_date_cell [[''15/03/2024'', ''Centro'', ''77'']]
   \<and> snd (ec_atm_run ''ASU''
            \<lparr>agencia = [], fecha_archivo = [], ing_egr = ''IN'', motivo_actual = []\<rparr>
            [[''15/03/2024'', ''Centro'', ''77'']]) = []"
proof -
  let ?r = "\<lparr>FECHA_OPER = ''15/03/2024'', SUCURSAL = ''Centro'', RECIBO = ''77'', BULTOS = ''3'',
     ING_EGR = ''IN'', CLASIFICACION = ''ATM'',
     FECHA_ARCHIVO = [], MOTIVO_MOVIMIENTO = ''DEPOSITO'', AGENCIA = ''ASU'',
       GUARANIES = ''1.500.000'', DOLARES = ''0''\<rparr>"
  let ?st = "\<lparr>agencia = [], fecha_archivo = [], ing_egr = ''IN'', motivo_actual = ''DEPOSITO''\<rparr>"
  let ?stm = "\<lparr>agencia = [], fecha_archivo = [], ing_egr = ''IN'', motivo_actual = []\<rparr>"
  let ?row = "[''15/03/2024'', ''Centro'', ''77'', ''3'', ''1.500.000'']"
  let ?grid = "[[''Retiro''], [''15/03/2024'', ''Centro'', ''77'']]"
  have h0: "snd (snd (ec_atm_step ''ASU'' ?st ?row)) = [?r]"
    by code_simp
  have h1: "?r \<in> set (snd (snd (ec_atm_step ''ASU'' ?st ?row)))"
    by (simp add: h0)
  have h2: "ing_egr (fst (snd (ec_atm_step ''ASU'' ec_state0 ['' Ingresos ''])))
              \<noteq> ing_egr ec_state0"
    by code_simp
  have h2': "fold_text (line_join ['' Ingresos '']) \<noteq> ''EGRESOS''"
    by code_simp
  have h4: "list_all (\<lambda>row. \<not> mentions_section row) ?grid"
    by code_simp
  have h5: "motivo_actual ?stm = [] \<and> list_all has_date_cell [[''15/03/2024'', ''Centro'', ''77'']]"
    by code_simp
  from h1 C1_section_motive_gate [of ?r "''ASU''" ?st ?row]
  have c1: "ing_egr ?st \<noteq> []" by blast
  from h2 h2' C1_section_motive_gate [of _ "''ASU''" ec_state0 "['' Ingresos '']"]
  have c2: "fold_text (line_join ['' Ingresos '']) = ''INGRESOS''" by blast
  from h4 C1_section_motive_gate [of _ "''ASU''" _ _ _ ?grid]
  have c4: "get_ec_atm ''ASU'' ?grid = []" by blast
  from h5 C1_section_motive_gate [of _ "''ASU''" ?stm _ _ _ "[[''15/03/2024'', ''Centro'', ''77'']]"]
  have c5: "snd (ec_atm_run ''ASU'' ?stm [[''15/03/2024'', ''Centro'', ''77'']]) = []" by blast
  from h4 h5 c1 c2 c4 c5 show ?thesis by blast
qed


subsection \<open>Stop rows\<close>

lemma ec_atm_step_stop_row:
  assumes "ec_atm_stop_row row"
  shows "ec_atm_step fb st row = (Next, st, [])"
  using assms
  by (auto simp: ec_atm_stop_row_def ec_atm_consumed_def ec_atm_step_def Let_def)

lemma comsol_ec_atm_step_stop_row:
  assumes "comsol_ec_atm_stop_row st row"
  shows "comsol_ec_atm_step st row = (Next, st, [])"
  using assms
  by (auto simp: comsol_ec_atm_stop_row_def comsol_ec_atm_consumed_def
      comsol_ec_atm_step_def Let_def)

text \<open>
  C2, as the code has it. A row that reaches the test for totals and matches it adds no
  record and leaves the whole parse state as it is, the motive included, in both
  \<^verbatim>\<open>get_ec_atm\<close> of \<^verbatim>\<open>prosegur_unificado_v4_2.py\<close> and \<^verbatim>\<open>get_ec_atm\<close> of \<^verbatim>\<open>comsol.py\<close>.
\<close>

theorem C2_stop_row_frame:
  "(ec_atm_stop_row row \<longrightarrow> ec_atm_step fb st row = (Next, st, []))
   \<and> (comsol_ec_atm_stop_row st2 row \<longrightarrow> comsol_ec_atm_step st2 row = (Next, st2, []))"
  using ec_atm_step_stop_row [of row fb st] comsol_ec_atm_step_stop_row [of st2 row]
  by simp

theorem C2_stop_row_frame_witness:
  "ec_atm_stop_row [''Sub Total'', ''1.500.000'']
   \<and> ec_atm_step ''ASU'' ec_state0 [''Sub Total'', ''1.500.000''] = (Next, ec_state0, [])
   \<and> comsol_ec_atm_stop_row ec_state_saldo0 [''Sub Total'', ''1.500.000'']
   \<and> comsol_ec_atm_step ec_state_saldo0 [''Sub Total'', ''1.500.000'']
       = (Next, ec_state_saldo0, [])"
proof -
  have h1: "ec_atm_stop_row [''Sub Total'', ''1.500.000'']"
    by code_simp
  have h2: "comsol_ec_atm_stop_row ec_state_saldo0 [''Sub Total'', ''1.500.000'']"
    by code_simp
  from h1 h2
    C2_stop_row_frame [of "[''Sub Total'', ''1.500.000'']" "''ASU''" ec_state0 ec_state_saldo0]
  show ?thesis by blast
qed

text \<open>
  The claim as written fails: after a totals row the motive is still the old one, and a
  detail row that follows is recorded under it.
\<close>

theorem C2_stop_row_frame_counterexample:
  "ec_atm_stop_row [''TOTAL'', ''1.500.000'']
   \<and> motivo_actual (fst (snd (ec_atm_step []
        \<lparr>agencia = [], fecha_archivo = [], ing_egr = ''IN'', motivo_actual = ''DEPOSITO''\<rparr>
        [''TOTAL'', ''1.500.000'']))) = ''DEPOSITO''
   \<and> map MOTIVO_MOVIMIENTO (snd (ec_atm_run []
        \<lparr>agencia = [], fecha_archivo = [], ing_egr = ''IN'', motivo_actual = ''DEPOSITO''\<rparr>
        [[''TOTAL'', ''1.500.000'', '''', '''', '''', ''''],
         [''16/03/2024'', ''Centro'', ''123457'', ''1'', ''200'', ''0'']])) = [''DEPOSITO'']
   \<and> motivo_actual (fst (snd (comsol_ec_atm_step
        \<lparr>agencia = [], fecha_archivo = [], ing_egr = ''IN'', motivo_actual = ''DEPOSITO'',
         saldo_ant_usd = [], saldo_ant_pyg = []\<rparr>
        [''TOTAL'', ''1.500.000'']))) = ''DEPOSITO''"
  by code_simp


subsection \<open>The wide-format scenario row\<close>

text \<open>
  C3, as the code has it. In section IN with motive DEPOSITO the scenario row gives exactly
  one record, and the state is unchanged. The receipt is the digits of the cell, leading
  zeros kept: 000123456.
\<close>

theorem C3_wide_row_record:
  "ec_atm_step ''ASU''
      \<lparr>agencia = [], fecha_archivo = ''31/03/2024'', ing_egr = ''IN'',
       motivo_actual = ''DEPOSITO''\<rparr>
      ['''', ''15/03/2024'', ''Ciudad del Este'', ''000123456'', ''3'', ''1.500.000'', ''0'']
   = (Next,
      \<lparr>agencia = [], fecha_archivo = ''31/03/2024'', ing_egr = ''IN'',
       motivo_actual = ''DEPOSITO''\<rparr>,
      [\<lparr>FECHA_OPER = ''15/03/2024'', SUCURSAL = ''Ciudad del Este'', RECIBO = ''000123456'',
        BULTOS = ''3'', ING_EGR = ''IN'',
        CLASIFICACION = ''ATM'', FECHA_ARCHIVO = ''31/03/2024'',
        MOTIVO_MOVIMIENTO = ''DEPOSITO'', AGENCIA = ''ASU'',
       GUARANIES = ''1.500.000'', DOLARES = ''0''\<rparr>])"
  by code_simp

theorem C3_wide_row_record_counterexample:
  "map RECIBO (snd (snd (ec_atm_step ''ASU''
      \<lparr>agencia = [], fecha_archivo = ''31/03/2024'', ing_egr = ''IN'',
       motivo_actual = ''DEPOSITO''\<rparr>
      ['''', ''15/03/2024'', ''Ciudad del Este'', ''000123456'', ''3'', ''1.500.000'', ''0''])))
     = [''000123456'']
   \<and> ''000123456'' \<noteq> ''123456''"
  by code_simp


subsection \<open>The terminal marker\<close>

lemma ingresos_not_terminal:
  "\<not> contains_str ''INFORME DE PROCESOS'' ''INGRESOS''"
  "\<not> contains_str ''INFORME DE PROCESOS'' ''EGRESOS''"
  by code_simp+

lemma ec_atm_step_terminal:
  assumes "ec_atm_terminal_row row"
  shows "ec_atm_step fb st row = (Stop, st, [])"
  using assms ingresos_not_terminal
  by (auto simp: ec_atm_terminal_row_def ec_atm_consumed_def ec_atm_step_def Let_def)

lemma comsol_ec_atm_step_terminal:
  assumes "comsol_ec_atm_terminal_row st row"
  shows "comsol_ec_atm_step st row = (Stop, st, [])"
  using assms ingresos_not_terminal
  by (auto simp: comsol_ec_atm_terminal_row_def comsol_ec_atm_consumed_def
      comsol_ec_atm_step_def Let_def)

lemma ec_atm_run_terminal:
  assumes "ec_atm_terminal_row row"
  shows "ec_atm_run fb st (pre @ row # rest) = ec_atm_run fb st (pre @ [row])"
proof (induction pre arbitrary: st)
  case Nil
  show ?case by (simp add: ec_atm_step_terminal [OF assms])
next
  case (Cons p pre)
  show ?case
    by (simp add: Cons.IH split: prod.splits flow.splits)
qed

text \<open>
  C9, as the code has it. When the scan reaches a row that contains the terminal marker
  and that no rule of higher priority takes first, the loop ends there: the final state
  and the records are those of the rows up to and including that row, whatever rows
  follow. In \<^verbatim>\<open>comsol.py\<close> the state at that row and no record is all that the rows from
  there on yield.
\<close>

theorem C9_terminal_marker:
  "(ec_atm_terminal_row row \<longrightarrow>
      ec_atm_run fb st (pre @ row # rest) = ec_atm_run fb st (pre @ [row])
      \<and> ec_atm_run fb st (row # rest) = (st, []))
   \<and> (comsol_ec_atm_terminal_row st2 row \<longrightarrow>
      comsol_ec_atm_run st2 (row # rest) = (st2, []))"
  using ec_atm_run_terminal [of row fb st pre rest] ec_atm_step_terminal [of row fb st]
    comsol_ec_atm_step_terminal [of st2 row]
  by simp

theorem C9_terminal_marker_witness:
  "ec_atm_terminal_row [''Informe de Procesos'', ''1'']
   \<and> ec_atm_run ''ASU'' ec_state0
        ([[''INGRESOS''], [''DEPOSITO'']] @ [''Informe de Procesos'', ''1'']
           # [[''TOTAL'', ''5''], [''15/03/2024'', ''Centro'', ''123456'', ''1'', ''100'']])
      = ec_atm_run ''ASU'' ec_state0
          ([[''INGRESOS''], [''DEPOSITO'']] @ [[''Informe de Procesos'', ''1'']])
   \<and> comsol_ec_atm_terminal_row ec_state_saldo0 [''Informe de Procesos'', ''1'']
   \<and> comsol_ec_atm_run ec_state_saldo0
        ([''Informe de Procesos'', ''1'']
           # [[''Saldo Anterior'', ''5''], [''15/03/2024'', ''Centro'', ''123456'']])
      = (ec_state_saldo0, [])"
proof -
  have h1: "ec_atm_terminal_row [''Informe de Procesos'', ''1'']"
    by code_simp
  have h2: "comsol_ec_atm_terminal_row ec_state_saldo0 [''Informe de Procesos'', ''1'']"
    by code_simp
  from h1 h2
    C9_terminal_marker [of "[''Informe de Procesos'', ''1'']" "''ASU''" ec_state0
      "[[''INGRESOS''], [''DEPOSITO'']]"
      "[[''TOTAL'', ''5''], [''15/03/2024'', ''Centro'', ''123456'', ''1'', ''100'']]"
      ec_state_saldo0]
    C9_terminal_marker [of "[''Informe de Procesos'', ''1'']" "''ASU''" ec_state0
      "[]" "[[''Saldo Anterior'', ''5''], [''15/03/2024'', ''Centro'', ''123456'']]"
      ec_state_saldo0]
  show ?thesis by blast
qed

text \<open>
  The claim as written fails: a row can contain the marker and still be taken by the
  issuer rule, and then the rows after it are read and give a record.
\<close>

theorem C9_terminal_marker_counterexample:
  "contains_str ''INFORME DE PROCESOS''
     (fold_text (line_join [''PROSEGUR PARAGUAY S.A. (SUCURSAL: ASU) INFORME DE PROCESOS'']))
   \<and> get_ec_atm []
       [[''PROSEGUR PARAGUAY S.A. (SUCURSAL: ASU) INFORME DE PROCESOS'', '''', '''', '''', '''', ''''],
        [''INGRESOS'', '''', '''', '''', '''', ''''],
        [''DEPOSITO'', '''', '''', '''', '''', ''''],
        [''15/03/2024'', ''Centro'', ''123456'', ''1'', ''100'', ''0'']]
     = [\<lparr>FECHA_OPER = ''15/03/2024'', SUCURSAL = ''Centro'', RECIBO = ''123456'',
         BULTOS = ''1'', ING_EGR = ''IN'',
         CLASIFICACION = ''ATM'', FECHA_ARCHIVO = [], MOTIVO_MOVIMIENTO = ''DEPOSITO'',
         AGENCIA = ''ASU'',
       GUARANIES = ''100'', DOLARES = ''0''\<rparr>]"
  by code_simp


subsection \<open>Opening balances are captured once\<close>










subsection \<open>Detail rows of the bank statement without a receipt\<close>







subsection \<open>Denominations of the inventory lines\<close>

lemma to_int_denom_rejects:
  "mem (CHR '':'') (txt_cell x) \<or> mem (CHR ''/'') (txt_cell x) \<Longrightarrow> to_int_denom x = None"
  by (auto simp: to_int_denom_def Let_def)

lemma to_int_denom_clean:
  "to_int_denom x = Some d \<Longrightarrow> clean_denom d x"
  by (auto simp: clean_denom_def to_int_denom_def Let_def split: if_splits)

lemma first_index_Some:
  "first_index P xs = Some j \<Longrightarrow> j < length xs \<and> P (xs ! j) \<and> (\<forall>i<j. \<not> P (xs ! i))"
proof (induction xs arbitrary: j)
  case Nil
  then show ?case by simp
next
  case (Cons x xs)
  show ?case
  proof (cases "P x")
    case True
    with Cons.prems show ?thesis by simp
  next
    case False
    with Cons.prems obtain k where k: "first_index P xs = Some k" "j = Suc k"
      by (auto split: if_splits)
    from Cons.IH [OF k(1)] False k(2) show ?thesis
      by (auto simp: less_Suc_eq_0_disj)
  qed
qed

lemma inv_row_step_denom:
  assumes "r \<in> set (snd (inv_row_step ags tps f a ctx row))"
  shows "\<exists>j<length row. clean_denom (DENOMINACION r) (row ! j)
            \<and> (\<forall>i<j. to_int_denom (row ! i) = None)"
proof -
  from assms obtain j where j: "first_index (\<lambda>c. to_int_denom c \<noteq> None) row = Some j"
    and d: "DENOMINACION r = (case to_int_denom (row ! j) of Some v \<Rightarrow> v | None \<Rightarrow> 0)"
    by (auto simp: inv_row_step_def Let_def split: if_splits option.splits)
  from first_index_Some [OF j]
  have "j < length row" "to_int_denom (row ! j) \<noteq> None" "\<forall>i<j. to_int_denom (row ! i) = None"
    by auto
  with d show ?thesis
    using to_int_denom_clean [of "row ! j" "DENOMINACION r"] by auto
qed

lemma inv_row_step_gate:
  assumes "r \<in> set (snd (inv_row_step ags tps f a ctx row))"
  shows "(AGRUPACION_EFECTIVO r \<noteq> [] \<or> TIPO_VALOR r \<noteq> [])
       \<and> (AGRUPACION_EFECTIVO r = cur_agrup ctx \<or> AGRUPACION_EFECTIVO r \<in> set ags)
       \<and> (TIPO_VALOR r = cur_tipo ctx \<or> TIPO_VALOR r \<in> set tps)"
  using assms
  by (auto simp: inv_row_step_def Let_def split: if_splits option.splits dest: find_Some_iff [THEN iffD1])

lemma inv_row_step_no_number:
  assumes "first_index (\<lambda>c. to_int_denom c \<noteq> None) row = None"
  shows "cur_agrup (fst (inv_row_step ags tps f a ctx row)) = cur_agrup ctx
       \<and> cur_tipo (fst (inv_row_step ags tps f a ctx row)) = cur_tipo ctx
       \<and> snd (inv_row_step ags tps f a ctx row) = []"
  using assms
  by (auto simp: inv_row_step_def Let_def)

lemma inv_walk_member:
  "r \<in> set (snd (inv_walk ags tps f a ctx rows)) \<Longrightarrow>
     \<exists>row \<in> set rows. \<exists>c. r \<in> set (snd (inv_row_step ags tps f a c row))"
proof (induction rows arbitrary: ctx)
  case Nil
  then show ?case by simp
next
  case (Cons row rows)
  obtain ctx' out where step: "inv_row_step ags tps f a ctx row = (ctx', out)"
    by (cases "inv_row_step ags tps f a ctx row")
  with Cons.prems have "r \<in> set out \<or> r \<in> set (snd (inv_walk ags tps f a ctx' rows))"
    by (auto split: prod.splits)
  then show ?case
  proof
    assume "r \<in> set out"
    with step have "r \<in> set (snd (inv_row_step ags tps f a ctx row))" by simp
    then show ?thesis by auto
  next
    assume "r \<in> set (snd (inv_walk ags tps f a ctx' rows))"
    from Cons.IH [OF this] show ?thesis by auto
  qed
qed

lemma inv_walk_denom:
  assumes "r \<in> set (snd (inv_walk ags tps f a ctx rows))"
  shows "\<exists>row \<in> set rows. \<exists>x \<in> set row. clean_denom (DENOMINACION r) x"
proof -
  from inv_walk_member [OF assms] obtain row c where
    row: "row \<in> set rows" and r: "r \<in> set (snd (inv_row_step ags tps f a c row))"
    by blast
  from inv_row_step_denom [OF r] obtain j where "j < length row"
    "clean_denom (DENOMINACION r) (row ! j)" by blast
  then have "\<exists>x \<in> set row. clean_denom (DENOMINACION r) x"
    using nth_mem by blast
  with row show ?thesis by blast
qed

lemma inv_walk_gate:
  assumes "r \<in> set (snd (inv_walk ags tps f a ctx rows))"
  shows "AGRUPACION_EFECTIVO r \<noteq> [] \<or> TIPO_VALOR r \<noteq> []"
  using inv_walk_member [OF assms] inv_row_step_gate by blast

lemma get_inv_atm_denom:
  assumes "r \<in> set (get_inv_atm hojas)"
  shows "\<exists>h \<in> set hojas. \<exists>row \<in> set (snd (snd h)). \<exists>x \<in> set row. clean_denom (DENOMINACION r) x"
proof -
  from assms obtain f a df where h: "(f, a, df) \<in> set hojas"
    and r0: "r \<in> set (case inv_atm_sheet f a df of Inl e \<Rightarrow> [] | Inr regs \<Rightarrow> regs)"
    by (auto simp: get_inv_atm_def)
  then obtain regs where s: "inv_atm_sheet f a df = Inr regs" and r: "r \<in> set regs"
    by (cases "inv_atm_sheet f a df") auto
  from s r obtain c i k where "r \<in> set (snd (inv_walk atm_agrup_tokens atm_tipo_tokens f a c
      (drop i (take k df))))"
    by (auto simp: inv_atm_sheet_def split: sum.splits prod.splits)
  from inv_walk_denom [OF this] obtain row x where
    "row \<in> set (drop i (take k df))" "x \<in> set row" "clean_denom (DENOMINACION r) x"
    by blast
  moreover then have "row \<in> set df"
    by (meson in_set_dropD in_set_takeD)
  ultimately show ?thesis using h by force
qed

lemma get_inv_bco_denom:
  assumes "r \<in> set (get_inv_bco hojas)"
  shows "\<exists>h \<in> set hojas. \<exists>row \<in> set (snd (snd h)). \<exists>x \<in> set row. clean_denom (DENOMINACION r) x"
proof -
  from assms obtain f a df where h: "(f, a, df) \<in> set hojas"
    and r: "r \<in> set (inv_bco_sheet f a df)"
    by (auto simp: get_inv_bco_def)
  from r obtain c k where "r \<in> set (snd (inv_walk bco_agrup_tokens bco_tipo_tokens f a c (take k df)))"
    by (auto simp: inv_bco_sheet_def Let_def)
  from inv_walk_denom [OF this] obtain row x where
    "row \<in> set (take k df)" "x \<in> set row" "clean_denom (DENOMINACION r) x"
    by blast
  moreover then have "row \<in> set df"
    by (meson in_set_takeD)
  ultimately show ?thesis using h by force
qed

text \<open>
  C6. \<^verbatim>\<open>_to_int_denom\<close> answers \<^verbatim>\<open>None\<close> for every cell whose text contains a colon or a
  slash. Hence the denomination of a line appended by a row is read from the first cell
  of that row that \<^verbatim>\<open>_to_int_denom\<close> accepts, a cell with neither character; and every
  line returned by \<^verbatim>\<open>get_inv_atm\<close> or \<^verbatim>\<open>get_inv_bco\<close> has its denomination read from such
  a cell of a row of one of the sheets.
\<close>

theorem C6_denomination_never_time_or_date:
  "(mem (CHR '':'') (txt_cell x) \<or> mem (CHR ''/'') (txt_cell x) \<longrightarrow> to_int_denom x = None)
   \<and> (r \<in> set (snd (inv_row_step ags tps f a ctx row)) \<longrightarrow>
        (\<exists>j<length row. clean_denom (DENOMINACION r) (row ! j)
            \<and> (\<forall>i<j. to_int_denom (row ! i) = None)))
   \<and> (q \<in> set (get_inv_atm hojas) \<longrightarrow>
        (\<exists>h \<in> set hojas. \<exists>row \<in> set (snd (snd h)). \<exists>x \<in> set row.
            clean_denom (DENOMINACION q) x))
   \<and> (q \<in> set (get_inv_bco hojas) \<longrightarrow>
        (\<exists>h \<in> set hojas. \<exists>row \<in> set (snd (snd h)). \<exists>x \<in> set row.
            clean_denom (DENOMINACION q) x))"
  using to_int_denom_rejects [of x] inv_row_step_denom [of r ags tps f a ctx row]
    get_inv_atm_denom [of q hojas] get_inv_bco_denom [of q hojas]
  by blast

theorem C6_denomination_never_time_or_date_witness:
  "mem (CHR '':'') (txt_cell ''06:28'')
   \<and> to_int_denom ''06:28'' = None
   \<and> to_int_denom ''23/10/2025'' = None
   \<and> map DENOMINACION (snd (inv_row_step atm_agrup_tokens atm_tipo_tokens ''23/10/2025'' ''ASU''
            \<lparr>cur_divisa = [], cur_agrup = [], cur_tipo = []\<rparr>
            [''06:28'', ''23/10/2025'', ''TESORO ATM'', ''50000'', ''12''])) = [50000]
   \<and> (\<exists>j<length [''06:28'', ''23/10/2025'', ''TESORO ATM'', ''50000'', ''12''].
         clean_denom 50000 ([''06:28'', ''23/10/2025'', ''TESORO ATM'', ''50000'', ''12''] ! j))"
proof -
  let ?row = "[''06:28'', ''23/10/2025'', ''TESORO ATM'', ''50000'', ''12'']"
  let ?ctx = "\<lparr>cur_divisa = [], cur_agrup = [], cur_tipo = []\<rparr>"
  let ?r = "\<lparr>FECHA_INVENTARIO = ''23/10/2025'', DIVISA = ''PYG'', AGENCIA_INV = ''ASU'',
             AGRUPACION_EFECTIVO = ''TESORO ATM'', TIPO_VALOR = [], DENOMINACION = 50000,
             DEPOSITO = 12, CJE_DEP = 0, CANJE = 0, MONEDA_INV = 0, IMPORTE_TOTAL = 0\<rparr>"
  have h1: "mem (CHR '':'') (txt_cell ''06:28'')" by code_simp
  have h2: "mem (CHR ''/'') (txt_cell ''23/10/2025'')" by code_simp
  have h3: "snd (inv_row_step atm_agrup_tokens atm_tipo_tokens ''23/10/2025'' ''ASU'' ?ctx ?row)
              = [?r]"
    by code_simp
  then have h4: "?r \<in> set (snd (inv_row_step atm_agrup_tokens atm_tipo_tokens
                     ''23/10/2025'' ''ASU'' ?ctx ?row))"
    by simp
  from h1 C6_denomination_never_time_or_date [of "''06:28''"]
  have c1: "to_int_denom ''06:28'' = None" by blast
  from h2 C6_denomination_never_time_or_date [of "''23/10/2025''"]
  have c2: "to_int_denom ''23/10/2025'' = None" by blast
  have "\<exists>j<length ?row. clean_denom (DENOMINACION ?r) (?row ! j)
          \<and> (\<forall>i<j. to_int_denom (?row ! i) = None)"
    by (rule C6_denomination_never_time_or_date
          [of "[]" ?r atm_agrup_tokens atm_tipo_tokens "''23/10/2025''" "''ASU''" ?ctx ?row
              ?r "[]", THEN conjunct2, THEN conjunct1, THEN mp, OF h4])
  then have c3: "\<exists>j<length ?row. clean_denom 50000 (?row ! j)"
    by (simp only: inv_reg.simps) blast
  from h1 h3 c1 c2 c3 show ?thesis by simp
qed


subsection \<open>The classifier gate of the inventory lines\<close>

text \<open>
  C7, as the code has it. A row appends a line only when the grouping or the value type
  is set after the row's own cells to the left of the denomination column have been
  searched for keywords: each classifier of the line is the one inherited from earlier
  rows or a keyword of this row. A row with no denomination candidate leaves both
  classifiers as they are and appends nothing. With grouping TESORO ATM and type BILLETES
  in effect the row 50000, 12, 0, 0, 0, 600000 appends one line with denomination 50000,
  deposit 12 and total 600000; with no classifier in effect it appends none.
\<close>

theorem C7_classifier_gate:
  "(r \<in> set (snd (inv_row_step ags tps f a ctx row)) \<longrightarrow>
      (AGRUPACION_EFECTIVO r \<noteq> [] \<or> TIPO_VALOR r \<noteq> [])
      \<and> (AGRUPACION_EFECTIVO r = cur_agrup ctx \<or> AGRUPACION_EFECTIVO r \<in> set ags)
      \<and> (TIPO_VALOR r = cur_tipo ctx \<or> TIPO_VALOR r \<in> set tps))
   \<and> (first_index (\<lambda>c. to_int_denom c \<noteq> None) row = None \<longrightarrow>
        cur_agrup (fst (inv_row_step ags tps f a ctx row)) = cur_agrup ctx
        \<and> cur_tipo (fst (inv_row_step ags tps f a ctx row)) = cur_tipo ctx
        \<and> snd (inv_row_step ags tps f a ctx row) = [])
   \<and> (q \<in> set (snd (inv_walk ags tps f a ctx rows)) \<longrightarrow>
        AGRUPACION_EFECTIVO q \<noteq> [] \<or> TIPO_VALOR q \<noteq> [])
   \<and> inv_row_step atm_agrup_tokens atm_tipo_tokens ''23/10/2025'' ''ASU''
        \<lparr>cur_divisa = ''PYG'', cur_agrup = ''TESORO ATM'', cur_tipo = ''BILLETES''\<rparr>
        [''50000'', ''12'', ''0'', ''0'', ''0'', ''600000'']
       = (\<lparr>cur_divisa = ''PYG'', cur_agrup = ''TESORO ATM'', cur_tipo = ''BILLETES''\<rparr>,
          [\<lparr>FECHA_INVENTARIO = ''23/10/2025'', DIVISA = ''PYG'', AGENCIA_INV = ''ASU'',
            AGRUPACION_EFECTIVO = ''TESORO ATM'', TIPO_VALOR = ''BILLETES'',
            DENOMINACION = 50000, DEPOSITO = 12, CJE_DEP = 0, CANJE = 0, MONEDA_INV = 0,
            IMPORTE_TOTAL = 600000\<rparr>])
   \<and> inv_row_step atm_agrup_tokens atm_tipo_tokens ''23/10/2025'' ''ASU''
        \<lparr>cur_divisa = ''PYG'', cur_agrup = [], cur_tipo = []\<rparr>
        [''50000'', ''12'', ''0'', ''0'', ''0'', ''600000'']
       = (\<lparr>cur_divisa = ''PYG'', cur_agrup = [], cur_tipo = []\<rparr>, [])"
proof -
  have s1: "inv_row_step atm_agrup_tokens atm_tipo_tokens ''23/10/2025'' ''ASU''
        \<lparr>cur_divisa = ''PYG'', cur_agrup = ''TESORO ATM'', cur_tipo = ''BILLETES''\<rparr>
        [''50000'', ''12'', ''0'', ''0'', ''0'', ''600000'']
       = (\<lparr>cur_divisa = ''PYG'', cur_agrup = ''TESORO ATM'', cur_tipo = ''BILLETES''\<rparr>,
          [\<lparr>FECHA_INVENTARIO = ''23/10/2025'', DIVISA = ''PYG'', AGENCIA_INV = ''ASU'',
            AGRUPACION_EFECTIVO = ''TESORO ATM'', TIPO_VALOR = ''BILLETES'',
            DENOMINACION = 50000, DEPOSITO = 12, CJE_DEP = 0, CANJE = 0, MONEDA_INV = 0,
            IMPORTE_TOTAL = 600000\<rparr>])"
    by code_simp
  have s2: "inv_row_step atm_agrup_tokens atm_tipo_tokens ''23/10/2025'' ''ASU''
        \<lparr>cur_divisa = ''PYG'', cur_agrup = [], cur_tipo = []\<rparr>
        [''50000'', ''12'', ''0'', ''0'', ''0'', ''600000'']
       = (\<lparr>cur_divisa = ''PYG'', cur_agrup = [], cur_tipo = []\<rparr>, [])"
    by code_simp
  show ?thesis
    using inv_row_step_gate [of r ags tps f a ctx row]
      inv_row_step_no_number [of row ags tps f a ctx]
      inv_walk_gate [of q ags tps f a ctx rows] s1 s2
    by blast
qed

theorem C7_classifier_gate_witness:
  "first_index (\<lambda>c. to_int_denom c \<noteq> None) [''TESORO ATM''] = None
   \<and> snd (inv_row_step atm_agrup_tokens atm_tipo_tokens ''23/10/2025'' ''ASU''
            \<lparr>cur_divisa = [], cur_agrup = [], cur_tipo = []\<rparr> [''TESORO ATM'']) = []
   \<and> cur_agrup (fst (inv_row_step atm_agrup_tokens atm_tipo_tokens ''23/10/2025'' ''ASU''
            \<lparr>cur_divisa = [], cur_agrup = [], cur_tipo = []\<rparr> [''TESORO ATM''])) = []
   \<and> map AGRUPACION_EFECTIVO
         (snd (inv_row_step atm_agrup_tokens atm_tipo_tokens ''23/10/2025'' ''ASU''
            \<lparr>cur_divisa = [], cur_agrup = [], cur_tipo = []\<rparr>
            [''Tesoro ATM'', ''50000'', ''12''])) = [''TESORO ATM'']"
proof -
  let ?ctx = "\<lparr>cur_divisa = [], cur_agrup = [], cur_tipo = []\<rparr>"
  let ?r = "\<lparr>FECHA_INVENTARIO = ''23/10/2025'', DIVISA = ''PYG'', AGENCIA_INV = ''ASU'',
             AGRUPACION_EFECTIVO = ''TESORO ATM'', TIPO_VALOR = [], DENOMINACION = 50000,
             DEPOSITO = 12, CJE_DEP = 0, CANJE = 0, MONEDA_INV = 0, IMPORTE_TOTAL = 0\<rparr>"
  have h1: "first_index (\<lambda>c. to_int_denom c \<noteq> None) [''TESORO ATM''] = None"
    by code_simp
  have h2: "snd (inv_row_step atm_agrup_tokens atm_tipo_tokens ''23/10/2025'' ''ASU'' ?ctx
                  [''Tesoro ATM'', ''50000'', ''12'']) = [?r]"
    by code_simp
  then have h3: "?r \<in> set (snd (inv_row_step atm_agrup_tokens atm_tipo_tokens ''23/10/2025''
                     ''ASU'' ?ctx [''Tesoro ATM'', ''50000'', ''12'']))"
    by simp
  from h1 C7_classifier_gate
    [of _ atm_agrup_tokens atm_tipo_tokens "''23/10/2025''" "''ASU''" ?ctx "[''TESORO ATM'']"]
  have c1: "snd (inv_row_step atm_agrup_tokens atm_tipo_tokens ''23/10/2025'' ''ASU'' ?ctx
                  [''TESORO ATM'']) = []"
    and c2: "cur_agrup (fst (inv_row_step atm_agrup_tokens atm_tipo_tokens ''23/10/2025'' ''ASU''
                  ?ctx [''TESORO ATM''])) = cur_agrup ?ctx"
    by blast+
  from h3 C7_classifier_gate
    [of ?r atm_agrup_tokens atm_tipo_tokens "''23/10/2025''" "''ASU''" ?ctx
        "[''Tesoro ATM'', ''50000'', ''12'']"]
  have c3: "AGRUPACION_EFECTIVO ?r \<noteq> [] \<or> TIPO_VALOR ?r \<noteq> []" by blast
  from h1 h2 c1 c2 c3 show ?thesis by simp
qed

text \<open>
  The claim as written fails. Rows that hold only the keyword texts have no denomination
  candidate and set no classifier, so the three rows of the scenario give no line (the
  sheet has no block start, and the walk over the rows appends nothing); and a row can
  set the classifier for itself, with no preceding row. When the two keyword rows do
  carry a denomination candidate, each of them gives a line of its own, so the three
  rows give three lines and not one.
\<close>

theorem C7_classifier_gate_counterexample:
  "inv_atm_sheet ''23/10/2025'' ''ASU''
     [[''TESORO ATM'', '''', '''', '''', '''', ''''],
      [''BILLETES'', '''', '''', '''', '''', ''''],
      [''50000'', ''12'', ''0'', ''0'', ''0'', ''600000'']]
     = Inl NoInicio
   \<and> get_inv_atm [(''23/10/2025'', ''ASU'',
        [[''TESORO ATM'', '''', '''', '''', '''', ''''],
      [''BILLETES'', '''', '''', '''', '''', ''''],
      [''50000'', ''12'', ''0'', ''0'', ''0'', ''600000'']])]
     = []
   \<and> snd (inv_walk atm_agrup_tokens atm_tipo_tokens ''23/10/2025'' ''ASU''
        \<lparr>cur_divisa = [], cur_agrup = [], cur_tipo = []\<rparr>
        [[''TESORO ATM'', '''', '''', '''', '''', ''''],
      [''BILLETES'', '''', '''', '''', '''', ''''],
      [''50000'', ''12'', ''0'', ''0'', ''0'', ''600000'']])
     = []
   \<and> map DENOMINACION (snd (inv_row_step atm_agrup_tokens atm_tipo_tokens ''23/10/2025'' ''ASU''
        \<lparr>cur_divisa = [], cur_agrup = [], cur_tipo = []\<rparr>
        [''TESORO ATM'', ''50000'', ''12'', ''0'', ''0'', ''0'', ''600000''])) = [50000]
   \<and> map DENOMINACION (snd (inv_walk atm_agrup_tokens atm_tipo_tokens ''23/10/2025'' ''ASU''
        \<lparr>cur_divisa = [], cur_agrup = [], cur_tipo = []\<rparr>
        [[''TESORO ATM'', ''100000'', ''1''], [''BILLETES'', ''20000'', ''2''],
         ['''', ''50000'', ''12'']])) = [100000, 20000, 50000]"
  by code_simp


subsection \<open>The agency normalizer\<close>

lemma agencia_code_in_table:
  assumes "agencia_code_from_text s = Some c"
  shows "c \<in> set (map fst agencia_aliases)"
proof -
  let ?t = "fold_text s"
  show ?thesis
  proof (cases "List.find (\<lambda>code. word_search code ?t) (map fst agencia_aliases)")
    case (Some code)
    with assms have "c = code"
      by (simp add: agencia_code_from_text_def Let_def split: if_splits)
    with Some show ?thesis
      by (auto simp: find_Some_iff)
  next
    case None
    with assms obtain item where
      "List.find (\<lambda>item. list_ex (\<lambda>al. word_search (fold_text al) ?t) (snd item))
         agencia_aliases = Some item" "c = fst item"
      by (auto simp: agencia_code_from_text_def Let_def split: if_splits option.splits)
    then show ?thesis
      by (auto simp: find_Some_iff)
  qed
qed

lemma agencia_codes_fixed:
  "agencia_code_from_text ''OVD'' = Some ''OVD''"
  "agencia_code_from_text ''ENC'' = Some ''ENC''"
  "agencia_code_from_text ''CON'' = Some ''CON''"
  "agencia_code_from_text ''ASU'' = Some ''ASU''"
  "agencia_code_from_text ''CDE'' = Some ''CDE''"
  by code_simp+

lemma agencia_code_again:
  assumes "agencia_code_from_text s = Some c"
  shows "agencia_code_from_text c = Some c \<and> c \<noteq> []"
proof -
  from agencia_code_in_table [OF assms]
  have "c = ''OVD'' \<or> c = ''ENC'' \<or> c = ''CON'' \<or> c = ''ASU'' \<or> c = ''CDE''"
    by (simp add: agencia_aliases_def)
  then show ?thesis
    using agencia_codes_fixed by auto
qed

lemma normalize_agencia_col_idem:
  "normalize_agencia_col (Some (normalize_agencia_col v)) = normalize_agencia_col v"
proof (cases v)
  case None
  then show ?thesis
    by (simp add: normalize_agencia_col_def agencia_code_from_text_def)
next
  case (Some s)
  show ?thesis
  proof (cases "agencia_code_from_text s")
    case None
    with Some show ?thesis
      by (simp add: normalize_agencia_col_def)
  next
    case (Some c)
    from agencia_code_again [OF Some] Some \<open>v = Some s\<close> show ?thesis
      by (simp add: normalize_agencia_col_def)
  qed
qed

lemma normalize_agencia_col_range:
  "normalize_agencia_col (Some s) = s
   \<or> normalize_agencia_col (Some s) \<in> set [''ASU'', ''CDE'', ''OVD'', ''ENC'', ''CON'']"
proof (cases "agencia_code_from_text s")
  case None
  then show ?thesis by (simp add: normalize_agencia_col_def)
next
  case (Some c)
  from agencia_code_in_table [OF Some]
  have "c = ''OVD'' \<or> c = ''ENC'' \<or> c = ''CON'' \<or> c = ''ASU'' \<or> c = ''CDE''"
    by (simp add: agencia_aliases_def)
  with Some show ?thesis
    by (auto simp: normalize_agencia_col_def)
qed

text \<open>
  C10. \<^verbatim>\<open>normalize_agencia_col\<close> is idempotent on every argument; each of the five codes
  ASU, CDE, OVD, ENC and CON is a fixed point; a text in which no code or alias is found is
  returned unchanged; the result is always the text itself or one of the five codes; and
  \<^verbatim>\<open>None\<close> gives the empty string.
\<close>

theorem C10_normalize_agencia_idempotent:
  "normalize_agencia_col (Some (normalize_agencia_col v)) = normalize_agencia_col v
   \<and> list_all (\<lambda>c. normalize_agencia_col (Some c) = c) [''ASU'', ''CDE'', ''OVD'', ''ENC'', ''CON'']
   \<and> (agencia_code_from_text s = None \<longrightarrow> normalize_agencia_col (Some s) = s)
   \<and> (normalize_agencia_col (Some s) = s
        \<or> normalize_agencia_col (Some s) \<in> set [''ASU'', ''CDE'', ''OVD'', ''ENC'', ''CON''])
   \<and> normalize_agencia_col None = []"
  using normalize_agencia_col_idem [of v] normalize_agencia_col_range [of s] agencia_codes_fixed
  by (simp add: normalize_agencia_col_def)

theorem C10_normalize_agencia_idempotent_witness:
  "agencia_code_from_text ''Sucursal Luque'' = None
   \<and> normalize_agencia_col (Some ''Sucursal Luque'') = ''Sucursal Luque''
   \<and> normalize_agencia_col (Some ''Ciudad del Este'') = ''CDE''
   \<and> normalize_agencia_col (Some (normalize_agencia_col (Some ''Ciudad del Este''))) = ''CDE''"
proof -
  have h1: "agencia_code_from_text ''Sucursal Luque'' = None" by code_simp
  have h2: "normalize_agencia_col (Some ''Ciudad del Este'') = ''CDE''" by code_simp
  from h1 C10_normalize_agencia_idempotent [of _ "''Sucursal Luque''"]
  have c1: "normalize_agencia_col (Some ''Sucursal Luque'') = ''Sucursal Luque''" by blast
  from C10_normalize_agencia_idempotent [of "Some ''Ciudad del Este''" "[]"]
  have c2: "normalize_agencia_col (Some (normalize_agencia_col (Some ''Ciudad del Este'')))
              = normalize_agencia_col (Some ''Ciudad del Este'')" by blast
  from h1 h2 c1 c2 show ?thesis by simp
qed

end
